theory Spec2Isabelle
  imports Complex_Main "HOL-Library.AList"
begin

section \<open>Python values shared by the model\<close>

text \<open>
  Exceptions raised by the modelled code are values: every \<^verbatim>\<open>raise\<close>, failed
  \<^verbatim>\<open>assert\<close>, missing dictionary key and out-of-range index of the source is a
  branch returning \<open>Inl\<close> of one of these.
\<close>

datatype error =
  ValueError string
| AssertionError
| KeyError string
| IndexError
| TypeError
| ZeroDivisionError

section \<open>model.py: the subbatch-size policy of RunModel\<close>

text \<open>
  \<^verbatim>\<open>RunModel.update_subbatch_size\<close> writes
  \<^verbatim>\<open>self.alphafold.global_config.subbatch_size\<close>; the only state it touches is that
  field, so the state is the global configuration record.
\<close>

record global_config =
  subbatch_size :: int
  deterministic :: bool
  zero_init :: bool

definition update_subbatch_size :: "int \<Rightarrow> int \<Rightarrow> global_config \<Rightarrow> error + global_config" where
  "update_subbatch_size seq_len extra_msa_num gc =
     (if extra_msa_num = 5120 then
        (if seq_len < 200 then Inr (gc\<lparr>subbatch_size := 5120\<rparr>) else Inr gc)
      else if extra_msa_num = 1024 then
        (if seq_len < 600 then Inr (gc\<lparr>subbatch_size := 1024\<rparr>) else Inr gc)
      else Inl (ValueError ''Unknown subbatch strategy''))"

section \<open>Python dictionaries and exceptions as values\<close>

text \<open>
  A Python \<^verbatim>\<open>dict\<close> is an association list in insertion order with distinct keys:
  \<^verbatim>\<open>d[k]\<close> is \<open>dict_get\<close> (raising \<^verbatim>\<open>KeyError\<close>), \<^verbatim>\<open>d[k] = v\<close> is \<open>AList.update\<close>,
  \<^verbatim>\<open>del d[k]\<close> is \<open>AList.delete\<close>, \<^verbatim>\<open>d.update(e)\<close> is \<open>dict_update\<close>.
\<close>

type_synonym 'v dict = "(string \<times> 'v) list"

definition dict_get :: "'v dict \<Rightarrow> string \<Rightarrow> error + 'v" where
  "dict_get d k = (case map_of d k of None \<Rightarrow> Inl (KeyError k) | Some v \<Rightarrow> Inr v)"

definition dict_update :: "'v dict \<Rightarrow> 'v dict \<Rightarrow> 'v dict" where
  "dict_update d e = fold (\<lambda>(k, v). AList.update k v) e d"

text \<open>Sequencing of computations that may raise: the first exception wins.\<close>

fun ebind :: "error + 'a \<Rightarrow> ('a \<Rightarrow> error + 'b) \<Rightarrow> error + 'b" where
  "ebind (Inl e) f = Inl e"
| "ebind (Inr x) f = f x"

fun emap :: "('a \<Rightarrow> error + 'b) \<Rightarrow> 'a list \<Rightarrow> error + 'b list" where
  "emap f [] = Inr []"
| "emap f (x # xs) = ebind (f x) (\<lambda>y. ebind (emap f xs) (\<lambda>ys. Inr (y # ys)))"

section \<open>Tensors\<close>

text \<open>
  A paddle tensor is its shape, its entries as a function of the index list, and the
  autograd flag \<^verbatim>\<open>stop_gradient\<close>. float32 entries are modelled by real numbers
  (rounding, infinities and NaN are outside the model). An index list \<open>ix\<close> is in
  bounds of a shape when it has the shape's length and every component is below the
  dimension.
\<close>

record tensor =
  shape :: "nat list"
  data :: "nat list \<Rightarrow> real"
  stop_gradient :: bool

definition in_bounds :: "nat list \<Rightarrow> nat list \<Rightarrow> bool" where
  "in_bounds sh ix = (length ix = length sh \<and> list_all2 (<) ix sh)"

text \<open>
  The code never reads an entry outside the shape. Every tensor that the primitives below
  build from index arithmetic is built by \<open>mk_tensor\<close>, which fixes those entries to 0, so
  that two results with the same shape and the same entries are the same tensor.
\<close>

definition mk_tensor :: "nat list \<Rightarrow> (nat list \<Rightarrow> real) \<Rightarrow> bool \<Rightarrow> tensor" where
  "mk_tensor sh f sg =
     \<lparr>shape = sh, data = (\<lambda>ix. if in_bounds sh ix then f ix else 0), stop_gradient = sg\<rparr>"

text \<open>\<^verbatim>\<open>paddle.zeros_like(t, dtype='float32')\<close>.\<close>

definition zeros_like :: "tensor \<Rightarrow> tensor" where
  "zeros_like t = \<lparr>shape = shape t, data = (\<lambda>ix. 0), stop_gradient = True\<rparr>"

text \<open>\<^verbatim>\<open>t[..., None]\<close>: a new last axis of length 1.\<close>

definition unsqueeze_last :: "tensor \<Rightarrow> tensor" where
  "unsqueeze_last t = mk_tensor (shape t @ [1]) (\<lambda>ix. data t (butlast ix)) (stop_gradient t)"

text \<open>\<^verbatim>\<open>paddle.tile(t, repeat_times)\<close> for \<open>repeat_times\<close> of the tensor's rank.\<close>

definition tile :: "tensor \<Rightarrow> nat list \<Rightarrow> tensor" where
  "tile t reps = mk_tensor (map2 (*) (shape t) reps)
                   (\<lambda>ix. data t (map2 (\<lambda>i d. i mod d) ix (shape t))) (stop_gradient t)"

text \<open>
  Python slice bounds \<^verbatim>\<open>start:end\<close> on an axis of length \<open>n\<close>: negative bounds count
  from the end, and both are clamped to the axis.
\<close>

definition slice_bound :: "nat \<Rightarrow> int \<Rightarrow> nat" where
  "slice_bound n i = (if i < 0 then nat (max 0 (i + int n)) else min (nat i) n)"

text \<open>
  \<^verbatim>\<open>t.slice([axis], [s], [e])\<close> for \<open>0 \<le> s\<close>: the entries \<open>s, \<dots>, e - 1\<close> along the axis,
  \<open>e\<close> clamped to the axis; an axis the tensor does not have raises.
\<close>

definition sliced :: "tensor \<Rightarrow> nat \<Rightarrow> nat \<Rightarrow> nat \<Rightarrow> tensor" where
  "sliced t axis s e =
     mk_tensor ((shape t)[axis := min e (shape t ! axis) - s])
       (\<lambda>ix. data t (ix[axis := ix ! axis + s])) (stop_gradient t)"

definition slice_axis :: "tensor \<Rightarrow> nat \<Rightarrow> nat \<Rightarrow> nat \<Rightarrow> error + tensor" where
  "slice_axis t axis s e =
     (if length (shape t) \<le> axis then Inl IndexError else Inr (sliced t axis s e))"

text \<open>\<^verbatim>\<open>t[:, start:end]\<close>; indexing axis 1 of a tensor of rank below 2 raises.\<close>

definition slice_axis1 :: "tensor \<Rightarrow> int \<Rightarrow> int \<Rightarrow> error + tensor" where
  "slice_axis1 t start stop =
     (if length (shape t) < 2 then Inl IndexError
      else slice_axis t 1 (slice_bound (shape t ! 1) start) (slice_bound (shape t ! 1) stop))"

text \<open>\<^verbatim>\<open>t[:, i]\<close> for \<open>i \<ge> 0\<close>: axis 1 is removed; out of range raises.\<close>

definition index_axis1 :: "tensor \<Rightarrow> nat \<Rightarrow> error + tensor" where
  "index_axis1 t i =
     (if length (shape t) < 2 \<or> shape t ! 1 \<le> i then Inl IndexError
      else Inr (mk_tensor (take 1 (shape t) @ drop 2 (shape t))
                  (\<lambda>ix. data t (take 1 ix @ [i] @ drop 1 ix)) (stop_gradient t)))"

text \<open>
  Broadcasting of two shapes, aligned at the last axis (the shorter shape is padded with
  ones in front): dimensions must agree or one of them is 1.
\<close>

definition pad_shape :: "nat \<Rightarrow> nat list \<Rightarrow> nat list" where
  "pad_shape r sh = replicate (r - length sh) 1 @ sh"

definition bcast_shape :: "nat list \<Rightarrow> nat list \<Rightarrow> nat list option" where
  "bcast_shape a b =
     (let r = max (length a) (length b); pa = pad_shape r a; pb = pad_shape r b
      in if list_all2 (\<lambda>x y. x = y \<or> x = 1 \<or> y = 1) pa pb
         then Some (map2 (\<lambda>x y. if x = 1 then y else x) pa pb)
         else None)"

text \<open>The index into an operand of shape \<open>sh\<close> that a result index \<open>ix\<close> reads.\<close>

definition bcast_index :: "nat list \<Rightarrow> nat list \<Rightarrow> nat list" where
  "bcast_index sh ix = map2 (\<lambda>d i. if d = 1 then 0 else i) sh (drop (length ix - length sh) ix)"

text \<open>An elementwise binary operator with broadcasting, as \<^verbatim>\<open>a + b\<close> on tensors.\<close>

definition tbinop :: "(real \<Rightarrow> real \<Rightarrow> real) \<Rightarrow> tensor \<Rightarrow> tensor \<Rightarrow> error + tensor" where
  "tbinop f a b =
     (case bcast_shape (shape a) (shape b) of
        None \<Rightarrow> Inl (ValueError ''Broadcast dimension mismatch'')
      | Some sh \<Rightarrow> Inr (mk_tensor sh
                        (\<lambda>ix. f (data a (bcast_index (shape a) ix))
                                 (data b (bcast_index (shape b) ix)))
                        (stop_gradient a \<and> stop_gradient b)))"

definition tadd :: "tensor \<Rightarrow> tensor \<Rightarrow> error + tensor" where
  "tadd = tbinop (+)"

text \<open>\<^verbatim>\<open>t / c\<close> for a Python float \<open>c\<close>.\<close>

definition tdiv_scalar :: "tensor \<Rightarrow> real \<Rightarrow> tensor" where
  "tdiv_scalar t c = t\<lparr>data := (\<lambda>ix. data t ix / c)\<rparr>"

text \<open>\<^verbatim>\<open>t[0]\<close>: the first entry along axis 0.\<close>

definition index_axis0 :: "tensor \<Rightarrow> nat \<Rightarrow> error + tensor" where
  "index_axis0 t i =
     (if shape t = [] \<or> hd (shape t) \<le> i then Inl IndexError
      else Inr (mk_tensor (tl (shape t)) (\<lambda>ix. data t (i # ix)) (stop_gradient t)))"

text \<open>
  \<^verbatim>\<open>int(t.numpy())\<close>: only an array with exactly one entry converts to a Python
  integer, and the conversion truncates towards zero.
\<close>

definition py_int :: "tensor \<Rightarrow> error + int" where
  "py_int t =
     (if prod_list (shape t) = 1
      then (let x = data t (replicate (length (shape t)) 0)
            in Inr (if x < 0 then - \<lfloor>- x\<rfloor> else \<lfloor>x\<rfloor>))
      else Inl TypeError)"

section \<open>modules.py: AlphaFoldIteration\<close>

text \<open>
  Modelled from the spec: \<^verbatim>\<open>residue_constants.atom_type_num\<close> is not among the sources;
  the spec gives the atom axis of \<^verbatim>\<open>final_atom_positions\<close> as 37.
\<close>

definition atom_type_num :: nat where
  "atom_type_num = 37"

text \<open>
  What a head returns: its outputs, and optionally extra representations (the entry
  \<^verbatim>\<open>'representations'\<close> that \<^verbatim>\<open>AlphaFoldIteration.forward\<close> pops from the head's dict).
\<close>

record head_out =
  outputs :: "tensor dict"
  extra_representations :: "tensor dict option"

text \<open>
  The layers owned by one \<^verbatim>\<open>AlphaFoldIteration\<close>: the orchestrator
  \<^verbatim>\<open>self.evoformer\<close> (a function of the per-member batch), the head modules reached by
  \<^verbatim>\<open>getattr(self, head_name_)\<close>, and \<^verbatim>\<open>self.used_heads\<close> as \<^verbatim>\<open>__init__\<close> left it.
\<close>

record network =
  evoformer :: "tensor dict \<Rightarrow> error + tensor dict"
  head :: "string \<Rightarrow> tensor dict \<Rightarrow> tensor dict \<Rightarrow> error + head_out"
  used_heads :: "string list"

text \<open>
  The dict \<^verbatim>\<open>ret\<close> of one iteration: the entry \<^verbatim>\<open>'representations'\<close> (absent once
  \<^verbatim>\<open>AlphaFold.forward\<close> has deleted it) and one entry per head.
\<close>

record iteration_ret =
  representations :: "tensor dict option"
  heads :: "(tensor dict) dict"

text \<open>\<^verbatim>\<open>_slice_batch(i)\<close>: member \<open>i\<close> of every ensembled feature, then the recycling state.\<close>

definition slice_batch :: "tensor dict \<Rightarrow> tensor dict \<Rightarrow> nat \<Rightarrow> error + tensor dict" where
  "slice_batch ensembled_batch non_ensembled_batch i =
     ebind (emap (\<lambda>(k, v). ebind (index_axis1 v i) (\<lambda>vi. Inr (k, vi))) ensembled_batch)
       (\<lambda>b. Inr (dict_update b non_ensembled_batch))"

text \<open>\<^verbatim>\<open>for k in representations.keys(): representations[k] += representations_update[k]\<close>\<close>

definition add_update :: "tensor dict \<Rightarrow> tensor dict \<Rightarrow> error + tensor dict" where
  "add_update reps upd =
     emap (\<lambda>(k, v). ebind (dict_get upd k) (\<lambda>u. ebind (tadd v u) (\<lambda>w. Inr (k, w)))) reps"

text \<open>The loop \<^verbatim>\<open>for i in range(1, num_ensemble)\<close> over the remaining members.\<close>

fun ensemble_loop ::
  "network \<Rightarrow> tensor dict \<Rightarrow> tensor dict \<Rightarrow> nat list \<Rightarrow> tensor dict \<Rightarrow> error + tensor dict" where
  "ensemble_loop net ensembled_batch non_ensembled_batch [] reps = Inr reps"
| "ensemble_loop net ensembled_batch non_ensembled_batch (i # rest) reps =
     ebind (slice_batch ensembled_batch non_ensembled_batch i) (\<lambda>batch.
     ebind (evoformer net batch) (\<lambda>representations_update.
     ebind (add_update reps representations_update) (\<lambda>reps'.
     ensemble_loop net ensembled_batch non_ensembled_batch rest reps')))"

text \<open>\<^verbatim>\<open>_get_heads\<close>: the structure module first, then the other used heads.\<close>

definition get_heads :: "network \<Rightarrow> error + string list" where
  "get_heads net =
     (if ''structure_module'' \<in> set (used_heads net)
      then Inr (''structure_module'' # remove1 ''structure_module'' (used_heads net))
      else Inl AssertionError)"

text \<open>The loop over the heads: each head sees the representations as updated so far.\<close>

fun run_heads ::
  "network \<Rightarrow> tensor dict \<Rightarrow> string list \<Rightarrow> tensor dict \<Rightarrow> (tensor dict) dict
     \<Rightarrow> error + (tensor dict \<times> (tensor dict) dict)" where
  "run_heads net batch0 [] reps ret = Inr (reps, ret)"
| "run_heads net batch0 (head_name # hs) reps ret =
     ebind (head net head_name reps batch0) (\<lambda>out.
       run_heads net batch0 hs
         (case extra_representations out of None \<Rightarrow> reps | Some r \<Rightarrow> dict_update reps r)
         (AList.update head_name (outputs out) ret))"

definition AlphaFoldIteration_forward ::
  "network \<Rightarrow> tensor dict \<Rightarrow> tensor dict \<Rightarrow> bool \<Rightarrow> error + iteration_ret" where
  "AlphaFoldIteration_forward net ensembled_batch non_ensembled_batch ensemble_representations =
     ebind (dict_get ensembled_batch ''seq_length'') (\<lambda>seq_length.
     if length (shape seq_length) < 2 then Inl IndexError else
     let num_ensemble = shape seq_length ! 1 in
     if \<not> ensemble_representations \<and> num_ensemble \<noteq> 1 then Inl AssertionError else
     ebind (slice_batch ensembled_batch non_ensembled_batch 0) (\<lambda>batch0.
     ebind (evoformer net batch0) (\<lambda>reps.
     ebind (dict_get reps ''msa'') (\<lambda>msa_representation.
     ebind (if ensemble_representations
            then ebind (ensemble_loop net ensembled_batch non_ensembled_batch
                          [1..<num_ensemble] (AList.delete ''msa'' reps))
                   (\<lambda>summed. Inr (map (\<lambda>(k, v). (k, tdiv_scalar v (real num_ensemble + 0.0))) summed))
            else Inr (AList.delete ''msa'' reps)) (\<lambda>reps'.
     ebind (get_heads net) (\<lambda>head_names.
     ebind (run_heads net batch0 head_names
              (AList.update ''msa'' msa_representation reps') []) (\<lambda>(reps'', ret).
     Inr \<lparr>representations = Some reps'', heads = ret\<rparr>)))))))"

section \<open>modules.py: AlphaFold, the recycling driver\<close>

record embeddings_config =
  msa_channel :: nat
  pair_channel :: nat

record model_config =
  num_recycle :: int
  resample_msa_in_recycling :: bool
  embeddings_and_evoformer :: embeddings_config

text \<open>
  \<^verbatim>\<open>_get_prev\<close>: the recycling state taken from an iteration's output, each tensor with
  \<^verbatim>\<open>stop_gradient = True\<close>.
\<close>

definition get_prev :: "iteration_ret \<Rightarrow> error + tensor dict" where
  "get_prev ret =
     ebind (dict_get (heads ret) ''structure_module'') (\<lambda>sm.
     ebind (dict_get sm ''final_atom_positions'') (\<lambda>pos.
     ebind (case representations ret of None \<Rightarrow> Inl (KeyError ''representations'') | Some r \<Rightarrow> Inr r) (\<lambda>reps.
     ebind (dict_get reps ''msa_first_row'') (\<lambda>msa_first_row.
     ebind (dict_get reps ''pair'') (\<lambda>pair.
     Inr (map (\<lambda>(k, t). (k, t\<lparr>stop_gradient := True\<rparr>))
            [(''prev_pos'', pos), (''prev_msa_first_row'', msa_first_row), (''prev_pair'', pair)]))))))"

text \<open>
  One call of \<^verbatim>\<open>self.alphafold_iteration\<close> as the driver makes it: the arguments passed
  and what the call returned or raised. The model of the driver returns the list of these
  calls, in order, next to its result.
\<close>

record invocation =
  ensembled_batch :: "tensor dict"
  non_ensembled_batch :: "tensor dict"
  recycle_idx :: int
  outcome :: "error + iteration_ret"

text \<open>
  \<^verbatim>\<open>_run_single_recycling(prev, recycle_idx)\<close>; \<open>Inl\<close> when slicing the batch raises
  before the iteration is called.
\<close>

definition run_single_recycling ::
  "(tensor dict \<Rightarrow> tensor dict \<Rightarrow> bool \<Rightarrow> error + iteration_ret) \<Rightarrow> model_config \<Rightarrow> tensor dict
     \<Rightarrow> nat \<Rightarrow> bool \<Rightarrow> tensor dict \<Rightarrow> int \<Rightarrow> error + invocation" where
  "run_single_recycling alphafold_iteration config batch inner_batch ensemble_representations prev idx =
     ebind (if resample_msa_in_recycling config
            then (if num_recycle config + 1 = 0 then Inl ZeroDivisionError
                  else let num_ensemble = int inner_batch div (num_recycle config + 1);
                           start = idx * num_ensemble;
                           stop = start + num_ensemble
                       in emap (\<lambda>(k, v). ebind (slice_axis1 v start stop) (\<lambda>w. Inr (k, w))) batch)
            else Inr batch) (\<lambda>ensembled.
     Inr \<lparr>ensembled_batch = ensembled, non_ensembled_batch = prev, recycle_idx = idx,
          outcome = alphafold_iteration ensembled prev ensemble_representations\<rparr>)"

text \<open>The loop \<^verbatim>\<open>for recycle_idx in range(num_iter)\<close>, threading \<^verbatim>\<open>prev\<close>.\<close>

fun recycle_loop ::
  "(tensor dict \<Rightarrow> int \<Rightarrow> error + invocation) \<Rightarrow> int list \<Rightarrow> tensor dict \<Rightarrow> invocation list
     \<Rightarrow> invocation list \<times> (error + tensor dict)" where
  "recycle_loop run [] prev calls = (calls, Inr prev)"
| "recycle_loop run (i # rest) prev calls =
     (case run prev i of
        Inl e \<Rightarrow> (calls, Inl e)
      | Inr call \<Rightarrow>
          (case ebind (outcome call) get_prev of
             Inl e \<Rightarrow> (calls @ [call], Inl e)
           | Inr prev' \<Rightarrow> recycle_loop run rest prev' (calls @ [call])))"

text \<open>The all-zero recycling state built when \<^verbatim>\<open>config.num_recycle\<close> is non-zero.\<close>

definition initial_prev :: "model_config \<Rightarrow> tensor \<Rightarrow> nat \<Rightarrow> error + tensor dict" where
  "initial_prev config aatype num_residues =
     ebind (index_axis1 aatype 0) (\<lambda>aatype0.
     let zeros_bn = zeros_like aatype0;
         emb_config = embeddings_and_evoformer config
     in Inr [(''prev_pos'',
                tile (unsqueeze_last (unsqueeze_last zeros_bn)) [1, 1, atom_type_num, 3]),
             (''prev_msa_first_row'',
                tile (unsqueeze_last zeros_bn) [1, 1, msa_channel emb_config]),
             (''prev_pair'',
                tile (unsqueeze_last (unsqueeze_last zeros_bn))
                  [1, 1, num_residues, pair_channel emb_config])])"

text \<open>
  The number of recycling iterations: the per-batch \<^verbatim>\<open>num_iter_recycling\<close> capped by the
  configuration when the batch has it, the configuration's otherwise.
\<close>

definition recycling_num_iter :: "model_config \<Rightarrow> tensor dict \<Rightarrow> error + int" where
  "recycling_num_iter config batch =
     (case map_of batch ''num_iter_recycling'' of
        Some t \<Rightarrow> ebind (index_axis0 t 0) (\<lambda>t0. ebind (py_int t0) (\<lambda>num_iter.
                   Inr (min num_iter (num_recycle config))))
      | None \<Rightarrow> Inr (num_recycle config))"

definition AlphaFold_forward_with ::
  "(tensor dict \<Rightarrow> tensor dict \<Rightarrow> bool \<Rightarrow> error + iteration_ret) \<Rightarrow> model_config \<Rightarrow> tensor dict
     \<Rightarrow> bool \<Rightarrow> bool \<Rightarrow> invocation list \<times> (error + iteration_ret)" where
  "AlphaFold_forward_with alphafold_iteration config batch ensemble_representations return_representations =
     (case dict_get batch ''aatype'' of Inl e \<Rightarrow> ([], Inl e) | Inr aatype \<Rightarrow>
      if length (shape aatype) \<noteq> 3 then ([], Inl (ValueError ''unpack'')) else
      let inner_batch = shape aatype ! 1;
          num_residues = shape aatype ! 2;
          run = run_single_recycling alphafold_iteration config batch inner_batch
                  ensemble_representations;
          (calls, state) =
            (if num_recycle config \<noteq> 0
             then (case ebind (initial_prev config aatype num_residues) (\<lambda>prev.
                        ebind (recycling_num_iter config batch) (\<lambda>num_iter. Inr (prev, num_iter))) of
                     Inl e \<Rightarrow> ([], Inl e)
                   | Inr (prev, num_iter) \<Rightarrow>
                       (case recycle_loop run [0..num_iter - 1] prev [] of
                          (calls, Inl e) \<Rightarrow> (calls, Inl e)
                        | (calls, Inr prev') \<Rightarrow> (calls, Inr (prev', num_iter))))
             else ([], Inr ([], 0)))
      in (case state of Inl e \<Rightarrow> (calls, Inl e) | Inr (prev, num_iter) \<Rightarrow>
         (case run prev num_iter of Inl e \<Rightarrow> (calls, Inl e) | Inr call \<Rightarrow>
            (calls @ [call],
             ebind (outcome call) (\<lambda>ret.
               Inr (if \<not> return_representations then ret\<lparr>representations := None\<rparr> else ret))))))"

text \<open>\<^verbatim>\<open>AlphaFold.forward\<close> with \<^verbatim>\<open>self.alphafold_iteration\<close> the iteration above.\<close>

definition AlphaFold_forward ::
  "network \<Rightarrow> model_config \<Rightarrow> tensor dict \<Rightarrow> bool \<Rightarrow> bool
     \<Rightarrow> invocation list \<times> (error + iteration_ret)" where
  "AlphaFold_forward net = AlphaFold_forward_with (AlphaFoldIteration_forward net)"

section \<open>A small network and batch for concrete evaluation\<close>

definition const_tensor :: "nat list \<Rightarrow> real \<Rightarrow> tensor" where
  "const_tensor sh c = \<lparr>shape = sh, data = (\<lambda>ix. c), stop_gradient = False\<rparr>"

text \<open>
  A batch of one protein with two residues and \<open>e\<close> ensemble members; the MSA feature of
  member \<open>i\<close> has the value \<open>i\<close>.
\<close>

definition tiny_batch :: "nat \<Rightarrow> tensor dict" where
  "tiny_batch e =
     [(''aatype'', const_tensor [1, e, 2] 0), (''seq_length'', const_tensor [1, e] 2),
      (''msa_feat'', \<lparr>shape = [1, e, 1, 2, 1], data = (\<lambda>ix. real (ix ! 1)), stop_gradient = False\<rparr>)]"

text \<open>The same batch with a per-batch \<^verbatim>\<open>num_iter_recycling\<close> of \<open>k\<close>.\<close>

definition tiny_batch_override :: "nat \<Rightarrow> real \<Rightarrow> tensor dict" where
  "tiny_batch_override e k = tiny_batch e @ [(''num_iter_recycling'', const_tensor [1, e] k)]"

text \<open>
  An orchestrator whose output depends on the recycling state and on the MSA feature it
  is given, and a structure module, the only head.
\<close>

definition tiny_net :: network where
  "tiny_net = \<lparr>
     evoformer = (\<lambda>b.
       let c = (case map_of b ''prev_pair'' of None \<Rightarrow> 1 | Some p \<Rightarrow> data p [0, 0, 0, 0] + 2)
                 + (case map_of b ''msa_feat'' of None \<Rightarrow> 0 | Some m \<Rightarrow> data m [0, 0, 0, 0])
       in Inr [(''single'', const_tensor [1, 2, 4] c), (''pair'', const_tensor [1, 2, 2, 3] c),
               (''msa'', const_tensor [1, 1, 2, 5] c), (''msa_first_row'', const_tensor [1, 2, 5] c)]),
     head = (\<lambda>name reps b.
       Inr \<lparr>outputs = [(''final_atom_positions'', const_tensor [1, 2, 37, 3] 7)],
            extra_representations = Some [(''structure_module'', const_tensor [1, 2, 4] 9)]\<rparr>),
     used_heads = [''structure_module'']\<rparr>"

definition tiny_config :: "int \<Rightarrow> model_config" where
  "tiny_config r = \<lparr>num_recycle = r, resample_msa_in_recycling = False,
      embeddings_and_evoformer = \<lparr>msa_channel = 5, pair_channel = 3\<rparr>\<rparr>"

text \<open>
  The calls of a run are linked when each call receives the recycling state extracted
  from the call before it: \<open>chained p cs q\<close> says so for the calls \<open>cs\<close>, starting from the
  state \<open>p\<close> and ending with the state \<open>q\<close> extracted from the last of them.
\<close>

fun chained :: "tensor dict \<Rightarrow> invocation list \<Rightarrow> tensor dict \<Rightarrow> bool" where
  "chained p [] q = (p = q)"
| "chained p (c # cs) q =
     (non_ensembled_batch c = p \<and> (\<exists>p'. ebind (outcome c) get_prev = Inr p' \<and> chained p' cs q))"

section \<open>modules.py: DistogramHead\<close>

text \<open>\<^verbatim>\<open>paddle.transpose(t, perm)\<close>: axis \<open>a\<close> of the result is axis \<open>perm[a]\<close> of \<open>t\<close>.\<close>

definition transpose_perm :: "tensor \<Rightarrow> nat list \<Rightarrow> error + tensor" where
  "transpose_perm t perm =
     (if length perm = length (shape t) \<and> list_all (\<lambda>d. d \<in> set perm) [0..<length (shape t)]
      then Inr (mk_tensor (map (\<lambda>p. shape t ! p) perm)
                  (\<lambda>ix. data t (map (\<lambda>d. ix ! length (takeWhile (\<lambda>p. p \<noteq> d) perm))
                                   [0..<length perm]))
                  (stop_gradient t))
      else Inl (ValueError ''perm''))"

text \<open>
  \<^verbatim>\<open>nn.Linear\<close> with weight \<open>w\<close> of shape \<open>[in, out]\<close> and bias \<open>b\<close> of shape \<open>[out]\<close>,
  applied along the last axis.
\<close>

definition linear :: "tensor \<Rightarrow> tensor \<Rightarrow> tensor \<Rightarrow> error + tensor" where
  "linear w b x =
     (if length (shape w) = 2 \<and> shape b = [shape w ! 1] \<and> shape x \<noteq> [] \<and> last (shape x) = shape w ! 0
      then Inr (mk_tensor (butlast (shape x) @ [shape w ! 1])
                  (\<lambda>ix. (\<Sum>c<shape w ! 0. data x (butlast ix @ [c]) * data w [c, last ix])
                           + data b [last ix])
                  (stop_gradient x \<and> stop_gradient w \<and> stop_gradient b))
      else Inl (ValueError ''Linear''))"

text \<open>\<^verbatim>\<open>paddle.linspace(start, stop, num)\<close>\<close>

definition linspace :: "real \<Rightarrow> real \<Rightarrow> nat \<Rightarrow> tensor" where
  "linspace start stop num =
     mk_tensor [num]
       (\<lambda>ix. if num \<le> 1 then start else start + real (hd ix) * (stop - start) / real (num - 1))
       True"

text \<open>\<^verbatim>\<open>t[None, :]\<close>: a new first axis of length 1.\<close>

definition unsqueeze_first :: "tensor \<Rightarrow> tensor" where
  "unsqueeze_first t = mk_tensor (1 # shape t) (\<lambda>ix. data t (tl ix)) (stop_gradient t)"

record distogram_config =
  first_break :: real
  last_break :: real
  num_bins :: nat

text \<open>The parameters of the layer \<^verbatim>\<open>self.half_logits\<close>.\<close>

record distogram_head =
  half_logits_weight :: tensor
  half_logits_bias :: tensor

definition DistogramHead_forward ::
  "distogram_head \<Rightarrow> distogram_config \<Rightarrow> tensor dict \<Rightarrow> tensor dict \<Rightarrow> error + tensor dict" where
  "DistogramHead_forward self config reps batch =
     ebind (dict_get reps ''pair'') (\<lambda>pair.
     ebind (linear (half_logits_weight self) (half_logits_bias self) pair) (\<lambda>half_logits.
     ebind (transpose_perm half_logits [0, 2, 1, 3]) (\<lambda>transposed.
     ebind (tadd half_logits transposed) (\<lambda>logits.
     let breaks = linspace (first_break config) (last_break config) (num_bins config - 1);
         breaks = tile (unsqueeze_first breaks) [hd (shape logits), 1]
     in Inr [(''logits'', logits), (''bin_edges'', breaks)]))))"

text \<open>A pair representation that is not symmetric, and a layer with two bins.\<close>

definition tiny_pair :: tensor where
  "tiny_pair = \<lparr>shape = [1, 2, 2, 1], data = (\<lambda>ix. 2 * real (ix ! 1) + real (ix ! 2)),
                stop_gradient = False\<rparr>"

definition tiny_distogram_head :: distogram_head where
  "tiny_distogram_head =
     \<lparr>half_logits_weight = \<lparr>shape = [1, 2], data = (\<lambda>ix. 1 + real (ix ! 1)), stop_gradient = False\<rparr>,
      half_logits_bias = const_tensor [2] 0\<rparr>"

section \<open>modules.py: EvoformerIteration\<close>

text \<open>
  The sublayers and dropout layers that \<^verbatim>\<open>EvoformerIteration.__init__\<close> creates. A
  sublayer maps activations and masks to a residual or raises; a dropout layer maps a
  residual to a residual (the identity when the rate is 0 or the layer is in evaluation
  mode). Of the two column-attention fields the block owns the one that
  \<^verbatim>\<open>is_extra_msa\<close> selects.
\<close>

record evoformer_iteration =
  is_extra_msa :: bool
  msa_row_attention_with_pair_bias :: "tensor \<Rightarrow> tensor \<Rightarrow> tensor \<Rightarrow> error + tensor"
  msa_row_attn_dropout :: "tensor \<Rightarrow> tensor"
  msa_column_global_attention :: "tensor \<Rightarrow> tensor \<Rightarrow> error + tensor"
  msa_column_attention :: "tensor \<Rightarrow> tensor \<Rightarrow> error + tensor"
  msa_col_attn_dropout :: "tensor \<Rightarrow> tensor"
  msa_transition :: "tensor \<Rightarrow> tensor \<Rightarrow> error + tensor"
  msa_transition_dropout :: "tensor \<Rightarrow> tensor"
  outer_product_mean :: "tensor \<Rightarrow> tensor \<Rightarrow> error + tensor"
  outer_product_mean_dropout :: "tensor \<Rightarrow> tensor"
  triangle_multiplication_outgoing :: "tensor \<Rightarrow> tensor \<Rightarrow> error + tensor"
  triangle_outgoing_dropout :: "tensor \<Rightarrow> tensor"
  triangle_multiplication_incoming :: "tensor \<Rightarrow> tensor \<Rightarrow> error + tensor"
  triangle_incoming_dropout :: "tensor \<Rightarrow> tensor"
  triangle_attention_starting_node :: "tensor \<Rightarrow> tensor \<Rightarrow> error + tensor"
  triangle_starting_dropout :: "tensor \<Rightarrow> tensor"
  triangle_attention_ending_node :: "tensor \<Rightarrow> tensor \<Rightarrow> error + tensor"
  triangle_ending_dropout :: "tensor \<Rightarrow> tensor"
  pair_transition :: "tensor \<Rightarrow> tensor \<Rightarrow> error + tensor"
  pair_transition_dropout :: "tensor \<Rightarrow> tensor"

text \<open>
  The three lines that the block repeats for every sublayer,
  \<^verbatim>\<open>residual = sublayer(...); residual = dropout(residual); act = act + residual\<close>,
  with the name of the sublayer appended to the list of sublayers run so far.
\<close>

definition residual_update ::
  "string \<Rightarrow> error + tensor \<Rightarrow> (tensor \<Rightarrow> tensor) \<Rightarrow> tensor \<Rightarrow> string list
     \<Rightarrow> error + (tensor \<times> string list)" where
  "residual_update name sublayer_output dropout act trail =
     ebind sublayer_output (\<lambda>residual.
     ebind (tadd act (dropout residual)) (\<lambda>act'. Inr (act', trail @ [name])))"

text \<open>
  \<^verbatim>\<open>EvoformerIteration.forward\<close>; next to the new activations the model returns the
  names of the sublayers in the order they ran.
\<close>

definition EvoformerIteration_forward ::
  "evoformer_iteration \<Rightarrow> tensor dict \<Rightarrow> tensor dict \<Rightarrow> error + (tensor dict \<times> string list)" where
  "EvoformerIteration_forward self activations masks =
     ebind (dict_get activations ''msa'') (\<lambda>msa_act.
     ebind (dict_get activations ''pair'') (\<lambda>pair_act.
     ebind (dict_get masks ''msa'') (\<lambda>msa_mask.
     ebind (dict_get masks ''pair'') (\<lambda>pair_mask.
     ebind (residual_update ''msa_row_attention_with_pair_bias''
              (msa_row_attention_with_pair_bias self msa_act msa_mask pair_act)
              (msa_row_attn_dropout self) msa_act []) (\<lambda>(msa_act, trail).
     ebind (if is_extra_msa self
            then ebind (residual_update ''msa_column_global_attention''
                          (msa_column_global_attention self msa_act msa_mask)
                          (msa_col_attn_dropout self) msa_act trail) (\<lambda>(msa_act, trail).
                 residual_update ''msa_transition'' (msa_transition self msa_act msa_mask)
                   (msa_transition_dropout self) msa_act trail)
            else ebind (residual_update ''msa_column_attention''
                          (msa_column_attention self msa_act msa_mask)
                          (msa_col_attn_dropout self) msa_act trail) (\<lambda>(msa_act, trail).
                 residual_update ''msa_transition'' (msa_transition self msa_act msa_mask)
                   (msa_transition_dropout self) msa_act trail)) (\<lambda>(msa_act, trail).
     ebind (residual_update ''outer_product_mean'' (outer_product_mean self msa_act msa_mask)
              (outer_product_mean_dropout self) pair_act trail) (\<lambda>(pair_act, trail).
     ebind (residual_update ''triangle_multiplication_outgoing''
              (triangle_multiplication_outgoing self pair_act pair_mask)
              (triangle_outgoing_dropout self) pair_act trail) (\<lambda>(pair_act, trail).
     ebind (residual_update ''triangle_multiplication_incoming''
              (triangle_multiplication_incoming self pair_act pair_mask)
              (triangle_incoming_dropout self) pair_act trail) (\<lambda>(pair_act, trail).
     ebind (residual_update ''triangle_attention_starting_node''
              (triangle_attention_starting_node self pair_act pair_mask)
              (triangle_starting_dropout self) pair_act trail) (\<lambda>(pair_act, trail).
     ebind (residual_update ''triangle_attention_ending_node''
              (triangle_attention_ending_node self pair_act pair_mask)
              (triangle_ending_dropout self) pair_act trail) (\<lambda>(pair_act, trail).
     ebind (residual_update ''pair_transition'' (pair_transition self pair_act pair_mask)
              (pair_transition_dropout self) pair_act trail) (\<lambda>(pair_act, trail).
     Inr ([(''msa'', msa_act), (''pair'', pair_act)], trail)))))))))))))"

text \<open>
  A block whose sublayers return their first argument scaled by a constant of their own,
  with dropout switched off.
\<close>

definition scaled :: "real \<Rightarrow> tensor \<Rightarrow> tensor" where
  "scaled c t = mk_tensor (shape t) (\<lambda>ix. c * data t ix) (stop_gradient t)"

definition tiny_block :: "bool \<Rightarrow> evoformer_iteration" where
  "tiny_block extra = \<lparr>
     is_extra_msa = extra,
     msa_row_attention_with_pair_bias = (\<lambda>msa_act msa_mask pair_act. Inr (scaled 1 msa_act)),
     msa_row_attn_dropout = (\<lambda>r. r),
     msa_column_global_attention = (\<lambda>msa_act msa_mask. Inr (scaled 2 msa_act)),
     msa_column_attention = (\<lambda>msa_act msa_mask. Inr (scaled 3 msa_act)),
     msa_col_attn_dropout = (\<lambda>r. r),
     msa_transition = (\<lambda>act mask. Inr (scaled 1 act)),
     msa_transition_dropout = (\<lambda>r. r),
     outer_product_mean = (\<lambda>act mask. Inr (const_tensor [1, 2, 2, 1] (data act [0, 0, 0, 0]))),
     outer_product_mean_dropout = (\<lambda>r. r),
     triangle_multiplication_outgoing = (\<lambda>act mask. Inr (scaled 1 act)),
     triangle_outgoing_dropout = (\<lambda>r. r),
     triangle_multiplication_incoming = (\<lambda>act mask. Inr (scaled 1 act)),
     triangle_incoming_dropout = (\<lambda>r. r),
     triangle_attention_starting_node = (\<lambda>act mask. Inr (scaled 1 act)),
     triangle_starting_dropout = (\<lambda>r. r),
     triangle_attention_ending_node = (\<lambda>act mask. Inr (scaled 1 act)),
     triangle_ending_dropout = (\<lambda>r. r),
     pair_transition = (\<lambda>act mask. Inr (scaled 1 act)),
     pair_transition_dropout = (\<lambda>r. r)\<rparr>"

definition tiny_activations :: "tensor dict" where
  "tiny_activations = [(''msa'', const_tensor [1, 1, 2, 1] 1), (''pair'', const_tensor [1, 2, 2, 1] 1)]"

definition tiny_masks :: "tensor dict" where
  "tiny_masks = [(''msa'', const_tensor [1, 1, 2] 1), (''pair'', const_tensor [1, 2, 2] 1)]"

section \<open>More paddle primitives\<close>

text \<open>An elementwise function of one tensor, as \<^verbatim>\<open>relu(t)\<close>, \<^verbatim>\<open>sigmoid(t)\<close> or \<^verbatim>\<open>t * c\<close>.\<close>

definition tunary :: "(real \<Rightarrow> real) \<Rightarrow> tensor \<Rightarrow> tensor" where
  "tunary f t = mk_tensor (shape t) (\<lambda>ix. f (data t ix)) (stop_gradient t)"


definition sigmoid :: "real \<Rightarrow> real" where
  "sigmoid x = 1 / (1 + exp (- x))"

definition tmul :: "tensor \<Rightarrow> tensor \<Rightarrow> error + tensor" where
  "tmul = tbinop (*)"

text \<open>\<^verbatim>\<open>nn.functional.softmax(t)\<close>, along the last axis.\<close>

definition softmax :: "tensor \<Rightarrow> error + tensor" where
  "softmax t =
     (if shape t = [] then Inl (ValueError ''softmax'')
      else Inr (mk_tensor (shape t)
                  (\<lambda>ix. exp (data t ix) / (\<Sum>k<last (shape t). exp (data t (butlast ix @ [k]))))
                  (stop_gradient t)))"

text \<open>\<^verbatim>\<open>paddle.unsqueeze(t, axis)\<close>: a new axis of length 1 at position \<open>axis\<close>.\<close>

definition unsqueeze :: "tensor \<Rightarrow> nat \<Rightarrow> error + tensor" where
  "unsqueeze t axis =
     (if length (shape t) < axis then Inl (ValueError ''unsqueeze'')
      else Inr (mk_tensor (take axis (shape t) @ [1] @ drop axis (shape t))
                  (\<lambda>ix. data t (take axis ix @ drop (Suc axis) ix)) (stop_gradient t)))"

text \<open>\<^verbatim>\<open>t[..., i]\<close>: entry \<open>i\<close> of the last axis, which is removed.\<close>

definition index_last :: "tensor \<Rightarrow> nat \<Rightarrow> error + tensor" where
  "index_last t i =
     (if shape t = [] \<or> last (shape t) \<le> i then Inl IndexError
      else Inr (mk_tensor (butlast (shape t)) (\<lambda>ix. data t (ix @ [i])) (stop_gradient t)))"

subsection \<open>\<^verbatim>\<open>paddle.einsum\<close>\<close>

text \<open>
  The equation \<^verbatim>\<open>'ab,bc->ac'\<close> names the axes of each operand and of the result by
  letters. An entry of the result is the sum, over all values of the letters that the
  result does not have, of the product of the operands' entries.
\<close>

fun split_on :: "char \<Rightarrow> string \<Rightarrow> string list" where
  "split_on c [] = [[]]"
| "split_on c (x # xs) =
     (if x = c then [] # split_on c xs
      else (case split_on c xs of w # ws \<Rightarrow> (x # w) # ws | [] \<Rightarrow> [[x]]))"

definition parse_equation :: "string \<Rightarrow> string list \<times> string" where
  "parse_equation equation =
     (split_on CHR '','' (takeWhile (\<lambda>c. c \<noteq> CHR ''-'') equation),
      drop 2 (dropWhile (\<lambda>c. c \<noteq> CHR ''-'') equation))"

text \<open>The length of the axis a letter names, read from the first operand that has it.\<close>

fun letter_dim :: "char \<Rightarrow> (string \<times> tensor) list \<Rightarrow> nat" where
  "letter_dim c [] = 0"
| "letter_dim c ((spec, t) # ops) =
     (if c \<in> set spec then shape t ! length (takeWhile (\<lambda>x. x \<noteq> c) spec)
      else letter_dim c ops)"

text \<open>
  The operands fit the equation: one operand per term, one letter per axis, every
  occurrence of a letter naming axes of one length; and the result's letters are distinct
  letters of the operands.
\<close>

definition einsum_ok :: "string list \<Rightarrow> string \<Rightarrow> tensor list \<Rightarrow> bool" where
  "einsum_ok specs out ts =
     (length specs = length ts
      \<and> list_all (\<lambda>(spec, t). list_all2 (\<lambda>c d. d = letter_dim c (zip specs ts)) spec (shape t))
           (zip specs ts)
      \<and> list_all (\<lambda>c. c \<in> set (concat specs)) out
      \<and> distinct out)"

text \<open>The sum over all values of the listed letters, each below its bound.\<close>

fun esum :: "(char \<times> nat) list \<Rightarrow> (char \<Rightarrow> nat) \<Rightarrow> ((char \<Rightarrow> nat) \<Rightarrow> real) \<Rightarrow> real" where
  "esum [] env f = f env"
| "esum ((c, n) # cs) env f = (\<Sum>i<n. esum cs (env(c := i)) f)"

definition env_of :: "string \<Rightarrow> nat list \<Rightarrow> char \<Rightarrow> nat" where
  "env_of out ix c = (case map_of (zip out ix) c of Some i \<Rightarrow> i | None \<Rightarrow> 0)"

definition einsum_terms :: "string list \<Rightarrow> string \<Rightarrow> tensor list \<Rightarrow> error + tensor" where
  "einsum_terms specs out ts =
     (let ops = zip specs ts;
          summed = remdups (filter (\<lambda>c. c \<notin> set out) (concat specs))
      in if einsum_ok specs out ts
         then Inr (mk_tensor (map (\<lambda>c. letter_dim c ops) out)
                     (\<lambda>ix. esum (map (\<lambda>c. (c, letter_dim c ops)) summed) (env_of out ix)
                              (\<lambda>env. prod_list (map (\<lambda>(spec, t). data t (map env spec)) ops)))
                     (list_all stop_gradient ts))
         else Inl (ValueError ''einsum''))"

definition einsum :: "string \<Rightarrow> tensor list \<Rightarrow> error + tensor" where
  "einsum equation ts = (case parse_equation equation of (specs, out) \<Rightarrow> einsum_terms specs out ts)"

section \<open>modules.py: Attention and GlobalAttention\<close>

text \<open>
  The parameters and configuration of an \<^verbatim>\<open>Attention\<close> or \<^verbatim>\<open>GlobalAttention\<close> layer;
  the two classes have the same fields (in the global variant \<^verbatim>\<open>key_w\<close> and \<^verbatim>\<open>value_w\<close>
  have no head axis). \<open>gating\<close> is \<^verbatim>\<open>self.config.gating\<close>.
\<close>

record attention =
  gating :: bool
  key_dim :: nat
  value_dim :: nat
  query_w :: tensor
  key_w :: tensor
  value_w :: tensor
  gating_w :: tensor
  gating_b :: tensor
  output_w :: tensor
  output_b :: tensor


text \<open>
  \<^verbatim>\<open>GlobalAttention.forward\<close>. Modelled from the spec: \<^verbatim>\<open>utils.mask_mean\<close> is not among
  the sources; the spec names it the masked mean of the shared tensor primitives, and the
  model takes it as the parameter \<open>mask_mean\<close>, called as the source calls it (mask, value,
  axis).
\<close>

definition GlobalAttention_forward ::
  "(tensor \<Rightarrow> tensor \<Rightarrow> nat \<Rightarrow> error + tensor) \<Rightarrow> attention \<Rightarrow> tensor \<Rightarrow> tensor \<Rightarrow> tensor \<Rightarrow> tensor
     \<Rightarrow> error + tensor" where
  "GlobalAttention_forward mask_mean self q_data m_data q_mask bias =
     ebind (einsum ''nbka,ac->nbkc'' [m_data, key_w self]) (\<lambda>k.
     ebind (einsum ''nbka,ac->nbkc'' [m_data, value_w self]) (\<lambda>v.
     ebind (mask_mean q_mask q_data 2) (\<lambda>q_avg.
     let c = real (key_dim self) powr (- 0.5) in
     ebind (einsum ''nba,ahc->nbhc'' [q_avg, query_w self]) (\<lambda>q0.
     let q = tunary (\<lambda>x. x * c) q0 in
     ebind (unsqueeze q_mask 2) (\<lambda>q_mask2.
     ebind (index_last q_mask2 0) (\<lambda>q_mask0.
     let bias = tunary (\<lambda>x. 10 ^ 9 * (x - 1)) q_mask0 in
     ebind (einsum ''nbhc,nbkc->nbhk'' [q, k]) (\<lambda>qk.
     ebind (tadd qk bias) (\<lambda>logits.
     ebind (softmax logits) (\<lambda>weights.
     ebind (einsum ''nbhk,nbkc->nbhc'' [weights, v]) (\<lambda>weighted_avg.
     if gating self
     then ebind (einsum ''nbqc,chv->nbqhv'' [q_data, gating_w self]) (\<lambda>g0.
          ebind (tadd g0 (gating_b self)) (\<lambda>g1.
          let gate_values = tunary sigmoid g1 in
          ebind (unsqueeze weighted_avg 2) (\<lambda>weighted_avg.
          ebind (tmul weighted_avg gate_values) (\<lambda>weighted_avg.
          ebind (einsum ''nbqhc,hco->nbqo'' [weighted_avg, output_w self]) (\<lambda>out.
          tadd out (output_b self))))))
     else ebind (einsum ''nbhc,hco->nbo'' [weighted_avg, output_w self]) (\<lambda>out.
          ebind (tadd out (output_b self)) (\<lambda>output.
          unsqueeze output (length (shape output))))))))))))))"

section \<open>Slicing into chunks and concatenating\<close>

text \<open>\<^verbatim>\<open>paddle.concat(ts, axis)\<close>: the tensors one after the other along the axis.\<close>

fun concat_data :: "tensor list \<Rightarrow> nat \<Rightarrow> nat list \<Rightarrow> real" where
  "concat_data [] axis ix = 0"
| "concat_data (t # ts) axis ix =
     (if ix ! axis < shape t ! axis then data t ix
      else concat_data ts axis (ix[axis := ix ! axis - shape t ! axis]))"

definition concat_axis :: "tensor list \<Rightarrow> nat \<Rightarrow> error + tensor" where
  "concat_axis ts axis =
     (case ts of
        [] \<Rightarrow> Inl (ValueError ''concat'')
      | t # rest \<Rightarrow>
          if axis < length (shape t)
             \<and> list_all (\<lambda>u. (shape u)[axis := 0] = (shape t)[axis := 0]) rest
          then Inr (mk_tensor ((shape t)[axis := sum_list (map (\<lambda>u. shape u ! axis) ts)])
                      (concat_data ts axis) (list_all stop_gradient ts))
          else Inl (ValueError ''concat''))"

text \<open>The positional arguments of a call: strings, tensors and \<^verbatim>\<open>None\<close>.\<close>

datatype arg = Str string | Ten tensor | NoneArg

text \<open>The first entries of the chunks of size \<open>bs\<close> of an axis of length \<open>width\<close>.\<close>

definition chunk_starts :: "nat \<Rightarrow> nat \<Rightarrow> nat list" where
  "chunk_starts width bs = map (\<lambda>j. j * bs) [0..<(width + bs - 1) div bs]"

text \<open>
  The arguments with every designated tensor (position in \<open>arg_idx\<close>) cut to the entries
  \<open>s, \<dots>, e - 1\<close> of its axis (the entry of \<open>dims\<close> at the same place).
\<close>

definition slice_args :: "nat list \<Rightarrow> nat list \<Rightarrow> nat \<Rightarrow> nat \<Rightarrow> arg list \<Rightarrow> error + arg list" where
  "slice_args arg_idx dims s e args =
     emap (\<lambda>(i, a). case map_of (zip arg_idx dims) i of
                       None \<Rightarrow> Inr a
                     | Some d \<Rightarrow> (case a of
                                   Ten t \<Rightarrow> ebind (slice_axis t d s e) (\<lambda>t'. Inr (Ten t'))
                                 | _ \<Rightarrow> Inl TypeError))
       (enumerate 0 args)"

text \<open>
  Modelled from the spec: \<^verbatim>\<open>utils.subbatch\<close> is not among the sources. By the spec's
  section on sub-batched evaluation, \<^verbatim>\<open>subbatch(f, arg_idx, dim, bs, out_idx)\<close> is the
  function that slices the designated input tensors along their axes into chunks of the
  configured size, invokes \<open>f\<close> per chunk, and concatenates the results along the output
  axis. The axis length is read from the first designated argument; a chunk size that is
  not positive raises.
\<close>

definition subbatch ::
  "(arg list \<Rightarrow> error + tensor) \<Rightarrow> nat list \<Rightarrow> nat list \<Rightarrow> int \<Rightarrow> nat \<Rightarrow> arg list \<Rightarrow> error + tensor" where
  "subbatch f arg_idx dims bs out_idx args =
     (if bs \<le> 0 \<or> arg_idx = [] \<or> length arg_idx \<noteq> length dims
      then Inl (ValueError ''subbatch'')
      else if length args \<le> hd arg_idx then Inl IndexError
      else (case args ! hd arg_idx of
              Ten t \<Rightarrow>
                if length (shape t) \<le> hd dims then Inl IndexError
                else ebind (emap (\<lambda>s. ebind (slice_args arg_idx dims s (s + nat bs) args) f)
                              (chunk_starts (shape t ! hd dims) (nat bs)))
                       (\<lambda>outs. concat_axis outs out_idx)
            | _ \<Rightarrow> Inl TypeError))"


text \<open>A tensor is canonical when it is 0 outside its shape, as every \<open>mk_tensor\<close> is.\<close>

definition canonical :: "tensor \<Rightarrow> bool" where
  "canonical t = (\<forall>ix. \<not> in_bounds (shape t) ix \<longrightarrow> data t ix = 0)"

section \<open>modules.py: Transition\<close>









section \<open>modules.py: TriangleMultiplication\<close>




section \<open>modules.py: OuterProductMean\<close>




section \<open>modules.py: MSARowAttentionWithPairBias\<close>



section \<open>Small layers for concrete evaluation of the chunked operations\<close>









section \<open>Properties of the subbatch-size policy\<close>

text \<open>
  C5. For every pair (seq_len, extra_msa_num): with 5120 extra sequences and fewer than
  200 residues the global subbatch size becomes 5120; with 1024 extra sequences and fewer
  than 600 residues it becomes 1024; any other extra-MSA width raises the configuration
  error; in every remaining case the configuration is returned unchanged.
\<close>

theorem update_subbatch_size_policy:
  "(extra_msa_num = 5120 \<and> seq_len < 200 \<longrightarrow>
      update_subbatch_size seq_len extra_msa_num gc = Inr (gc\<lparr>subbatch_size := 5120\<rparr>))
   \<and> (extra_msa_num = 1024 \<and> seq_len < 600 \<longrightarrow>
      update_subbatch_size seq_len extra_msa_num gc = Inr (gc\<lparr>subbatch_size := 1024\<rparr>))
   \<and> (extra_msa_num \<noteq> 5120 \<and> extra_msa_num \<noteq> 1024 \<longrightarrow>
      update_subbatch_size seq_len extra_msa_num gc = Inl (ValueError ''Unknown subbatch strategy''))
   \<and> ((extra_msa_num = 5120 \<and> \<not> seq_len < 200) \<or> (extra_msa_num = 1024 \<and> \<not> seq_len < 600) \<longrightarrow>
      update_subbatch_size seq_len extra_msa_num gc = Inr gc)"
  by (simp add: update_subbatch_size_def)

theorem update_subbatch_size_policy_witness:
  "update_subbatch_size 199 5120 \<lparr>subbatch_size = 48, deterministic = True, zero_init = True\<rparr>
     = Inr \<lparr>subbatch_size = 5120, deterministic = True, zero_init = True\<rparr>
   \<and> update_subbatch_size 599 1024 \<lparr>subbatch_size = 48, deterministic = True, zero_init = True\<rparr>
     = Inr \<lparr>subbatch_size = 1024, deterministic = True, zero_init = True\<rparr>
   \<and> update_subbatch_size 100 512 \<lparr>subbatch_size = 48, deterministic = True, zero_init = True\<rparr>
     = Inl (ValueError ''Unknown subbatch strategy'')
   \<and> update_subbatch_size 200 5120 \<lparr>subbatch_size = 48, deterministic = True, zero_init = True\<rparr>
     = Inr \<lparr>subbatch_size = 48, deterministic = True, zero_init = True\<rparr>
   \<and> update_subbatch_size 600 1024 \<lparr>subbatch_size = 48, deterministic = True, zero_init = True\<rparr>
     = Inr \<lparr>subbatch_size = 48, deterministic = True, zero_init = True\<rparr>"
  using update_subbatch_size_policy [of 5120 199 "\<lparr>subbatch_size = 48, deterministic = True, zero_init = True\<rparr>"]
        update_subbatch_size_policy [of 1024 599 "\<lparr>subbatch_size = 48, deterministic = True, zero_init = True\<rparr>"]
        update_subbatch_size_policy [of 512 100 "\<lparr>subbatch_size = 48, deterministic = True, zero_init = True\<rparr>"]
        update_subbatch_size_policy [of 5120 200 "\<lparr>subbatch_size = 48, deterministic = True, zero_init = True\<rparr>"]
        update_subbatch_size_policy [of 1024 600 "\<lparr>subbatch_size = 48, deterministic = True, zero_init = True\<rparr>"]
  by simp

section \<open>Sequencing of computations that may raise\<close>

lemma ebind_Inr_iff: "ebind m f = Inr y \<longleftrightarrow> (\<exists>x. m = Inr x \<and> f x = Inr y)"
  by (cases m) auto

lemma ebind_Inl_iff: "ebind m f = Inl e \<longleftrightarrow> (m = Inl e \<or> (\<exists>x. m = Inr x \<and> f x = Inl e))"
  by (cases m) auto

lemma ebindE:
  assumes "ebind m f = Inr y"
  obtains x where "m = Inr x" "f x = Inr y"
  using assms by (cases m) auto

lemma ebind_pairE:
  assumes "ebind m (\<lambda>(a, b). f a b) = Inr y"
  obtains a b where "m = Inr (a, b)" "f a b = Inr y"
  using assms by (cases m) auto

section \<open>Tensors built by the primitives\<close>

lemma in_bounds_simps [simp]:
  "in_bounds [] [] = True"
  "in_bounds [] (i # ix) = False"
  "in_bounds (d # sh) [] = False"
  "in_bounds (d # sh) (i # ix) = (i < d \<and> in_bounds sh ix)"
  by (auto simp: in_bounds_def)

lemma shape_mk_tensor [simp]: "shape (mk_tensor sh f sg) = sh"
  by (simp add: mk_tensor_def)

lemma stop_gradient_mk_tensor [simp]: "stop_gradient (mk_tensor sh f sg) = sg"
  by (simp add: mk_tensor_def)


lemma data_mk_tensor_in [simp]: "in_bounds sh ix \<Longrightarrow> data (mk_tensor sh f sg) ix = f ix"
  by (simp add: mk_tensor_def)

lemma data_mk_tensor_out [simp]: "\<not> in_bounds sh ix \<Longrightarrow> data (mk_tensor sh f sg) ix = 0"
  by (simp add: mk_tensor_def)

lemma mk_tensor_zero:
  "mk_tensor sh (\<lambda>ix. 0) sg = \<lparr>shape = sh, data = (\<lambda>ix. 0), stop_gradient = sg\<rparr>"
  by (simp add: mk_tensor_def)


section \<open>Properties of the recycling driver\<close>

lemma run_single_recycling_call:
  assumes "run_single_recycling it config batch ib ens prev idx = Inr call"
  shows "non_ensembled_batch call = prev" "recycle_idx call = idx"
    "outcome call = it (ensembled_batch call) prev ens"
    "\<not> resample_msa_in_recycling config \<Longrightarrow> ensembled_batch call = batch"
  using assms by (auto simp: run_single_recycling_def ebind_Inr_iff split: if_splits)

lemma chained_append: "chained p xs q \<Longrightarrow> chained q ys r \<Longrightarrow> chained p (xs @ ys) r"
  by (induction xs arbitrary: p) auto

text \<open>
  The loop adds one call per index and links the calls it adds; what holds of every call
  that \<open>run\<close> makes holds of every call added.
\<close>

lemma recycle_loop_chained:
  assumes run: "\<And>p i c. run p i = Inr c \<Longrightarrow> non_ensembled_batch c = p \<and> made c"
  shows "recycle_loop run idxs prev calls0 = (calls, Inr prev')
    \<Longrightarrow> \<exists>new. calls = calls0 @ new \<and> length new = length idxs \<and> chained prev new prev'
          \<and> (\<forall>c\<in>set new. made c)"
proof (induction idxs arbitrary: prev calls0)
  case Nil
  then show ?case by simp
next
  case (Cons i rest)
  from Cons.prems obtain c p' where c: "run prev i = Inr c"
    and p': "ebind (outcome c) get_prev = Inr p'"
    and rec: "recycle_loop run rest p' (calls0 @ [c]) = (calls, Inr prev')"
    by (auto split: sum.splits)
  from Cons.IH [OF rec] obtain new where new: "calls = (calls0 @ [c]) @ new"
    "length new = length rest" "chained p' new prev'" "\<forall>c\<in>set new. made c" by blast
  have "chained prev (c # new) prev'"
    using run [OF c] p' new(3) by simp
  moreover have "\<forall>d\<in>set (c # new). made d"
    using run [OF c] new(4) by simp
  ultimately show ?case using new(1,2) by (intro exI [of _ "c # new"]) simp
qed

lemma chained_snoc_nth:
  "chained p cs q \<Longrightarrow> non_ensembled_batch fc = q \<Longrightarrow> Suc k < length (cs @ [fc])
   \<Longrightarrow> ebind (outcome ((cs @ [fc]) ! k)) get_prev = Inr (non_ensembled_batch ((cs @ [fc]) ! Suc k))"
proof (induction cs arbitrary: p k)
  case Nil
  then show ?case by simp
next
  case (Cons c cs)
  from Cons.prems(1) obtain p' where p': "ebind (outcome c) get_prev = Inr p'" "chained p' cs q"
    by auto
  show ?case
  proof (cases k)
    case 0
    show ?thesis
    proof (cases cs)
      case Nil
      with p' Cons.prems(2) 0 show ?thesis by simp
    next
      case (Cons d ds)
      with p' 0 show ?thesis by simp
    qed
  next
    case (Suc k')
    with Cons.IH [OF p'(2) Cons.prems(2), of k'] Cons.prems(3) show ?thesis by simp
  qed
qed

text \<open>What \<^verbatim>\<open>_get_prev\<close> extracts from an iteration's output, when it returns.\<close>

lemma get_prev_extracts:
  assumes "ebind out get_prev = Inr p"
  shows "\<exists>ret sm pos reps msa_first_row pair.
      out = Inr ret
      \<and> dict_get (heads ret) ''structure_module'' = Inr sm
      \<and> dict_get sm ''final_atom_positions'' = Inr pos
      \<and> representations ret = Some reps
      \<and> dict_get reps ''msa_first_row'' = Inr msa_first_row
      \<and> dict_get reps ''pair'' = Inr pair
      \<and> p = [(''prev_pos'', pos\<lparr>stop_gradient := True\<rparr>),
             (''prev_msa_first_row'', msa_first_row\<lparr>stop_gradient := True\<rparr>),
             (''prev_pair'', pair\<lparr>stop_gradient := True\<rparr>)]"
proof -
  from assms obtain ret where ret: "out = Inr ret" and gp: "get_prev ret = Inr p"
    by (rule ebindE)
  from gp obtain sm pos r msa_first_row pair where
    "dict_get (heads ret) ''structure_module'' = Inr sm"
    "dict_get sm ''final_atom_positions'' = Inr pos"
    "(case representations ret of None \<Rightarrow> Inl (KeyError ''representations'') | Some r \<Rightarrow> Inr r) = Inr r"
    "dict_get r ''msa_first_row'' = Inr msa_first_row"
    "dict_get r ''pair'' = Inr pair"
    "p = [(''prev_pos'', pos\<lparr>stop_gradient := True\<rparr>),
          (''prev_msa_first_row'', msa_first_row\<lparr>stop_gradient := True\<rparr>),
          (''prev_pair'', pair\<lparr>stop_gradient := True\<rparr>)]"
    unfolding get_prev_def by (elim ebindE) auto
  moreover from this(3) have "representations ret = Some r"
    by (cases "representations ret") auto
  ultimately show ?thesis using ret by blast
qed

text \<open>
  What a run of the driver that returns normally has done: either the configuration
  recycles nothing and the only call got the empty state with index 0, or the loop ran over
  \<open>range(num_iter)\<close> from the all-zero state and the last call got the loop's final state.
  Every call is a call of the iteration on the arguments recorded for it.
\<close>

lemma AlphaFold_forward_cases:
  assumes fwd: "AlphaFold_forward net config batch ens rr = (calls, Inr result)"
  obtains (no_recycling) aatype call where
      "num_recycle config = 0" "dict_get batch ''aatype'' = Inr aatype" "length (shape aatype) = 3"
      "calls = [call]" "non_ensembled_batch call = []" "recycle_idx call = 0"
      "ebind (outcome call) (\<lambda>ret. Inr (if \<not> rr then ret\<lparr>representations := None\<rparr> else ret)) = Inr result"
      "\<forall>c\<in>set calls. outcome c = AlphaFoldIteration_forward net (ensembled_batch c) (non_ensembled_batch c) ens
          \<and> (\<not> resample_msa_in_recycling config \<longrightarrow> ensembled_batch c = batch)"
  | (recycling) aatype prev num_iter loopcalls prev' call where
      "num_recycle config \<noteq> 0" "dict_get batch ''aatype'' = Inr aatype" "length (shape aatype) = 3"
      "initial_prev config aatype (shape aatype ! 2) = Inr prev"
      "recycling_num_iter config batch = Inr num_iter"
      "length loopcalls = nat num_iter" "chained prev loopcalls prev'"
      "calls = loopcalls @ [call]" "non_ensembled_batch call = prev'" "recycle_idx call = num_iter"
      "ebind (outcome call) (\<lambda>ret. Inr (if \<not> rr then ret\<lparr>representations := None\<rparr> else ret)) = Inr result"
      "\<forall>c\<in>set calls. outcome c = AlphaFoldIteration_forward net (ensembled_batch c) (non_ensembled_batch c) ens
          \<and> (\<not> resample_msa_in_recycling config \<longrightarrow> ensembled_batch c = batch)"
proof -
  let ?it = "AlphaFoldIteration_forward net"
  let ?made = "\<lambda>c. outcome c = ?it (ensembled_batch c) (non_ensembled_batch c) ens
          \<and> (\<not> resample_msa_in_recycling config \<longrightarrow> ensembled_batch c = batch)"
  from fwd obtain aatype where aatype: "dict_get batch ''aatype'' = Inr aatype"
    "length (shape aatype) = 3"
    by (auto simp: AlphaFold_forward_def AlphaFold_forward_with_def split: sum.splits if_splits)
  define run where "run = run_single_recycling ?it config batch (shape aatype ! 1) ens"
  have run: "non_ensembled_batch c = p \<and> recycle_idx c = i" and made: "?made c"
    if "run p i = Inr c" for p i c
    using that run_single_recycling_call [of ?it config batch "shape aatype ! 1" ens p i c]
    unfolding run_def by simp_all
  show thesis
  proof (cases "num_recycle config = 0")
    case True
    with fwd aatype obtain call where call: "run [] 0 = Inr call" "calls = [call]"
      and res: "ebind (outcome call) (\<lambda>ret. Inr (if \<not> rr then ret\<lparr>representations := None\<rparr> else ret)) = Inr result"
      by (auto simp: AlphaFold_forward_def AlphaFold_forward_with_def Let_def run_def split: sum.splits)
    have "\<forall>c\<in>set calls. ?made c" using made [OF call(1)] call(2) by simp
    then show thesis using no_recycling [OF True aatype call(2) _ _ res] run [OF call(1)] by simp
  next
    case False
    with fwd aatype obtain prev num_iter loopcalls prev' call where
      ip: "initial_prev config aatype (shape aatype ! 2) = Inr prev"
      and ni: "recycling_num_iter config batch = Inr num_iter"
      and loop: "recycle_loop run [0..num_iter - 1] prev [] = (loopcalls, Inr prev')"
      and call: "run prev' num_iter = Inr call" "calls = loopcalls @ [call]"
      and res: "ebind (outcome call) (\<lambda>ret. Inr (if \<not> rr then ret\<lparr>representations := None\<rparr> else ret)) = Inr result"
      by (auto simp: AlphaFold_forward_def AlphaFold_forward_with_def Let_def run_def ebind_Inr_iff
          split: sum.splits prod.splits)
    have "\<And>p i c. run p i = Inr c \<Longrightarrow> non_ensembled_batch c = p \<and> ?made c"
      using run made by blast
    from recycle_loop_chained [of run ?made, OF this loop] have len: "length loopcalls = nat num_iter"
      and ch: "chained prev loopcalls prev'" and all: "\<forall>c\<in>set loopcalls. ?made c" by auto
    have "\<forall>c\<in>set calls. ?made c" using all made [OF call(1)] call(2) by simp
    then show thesis
      using recycling [OF False aatype ip ni len ch call(2) _ _ res] run [OF call(1)] by simp
  qed
qed

text \<open>
  C1, as the code has it. A run of \<^verbatim>\<open>AlphaFold.forward\<close> that returns normally has called
  the iteration exactly \<open>max(num_iter, 0) + 1\<close> times, where \<open>num_iter\<close> is the configured
  \<^verbatim>\<open>num_recycle\<close>, capped from above by the batch's \<^verbatim>\<open>num_iter_recycling\<close> when the batch
  has one: \<^verbatim>\<open>range\<close> of a number below zero is empty, and the final call is always made.
  Every call is a call of the iteration on the arguments recorded for it (the whole batch as
  ensembled input, unless the MSA is resampled). Every call after the first receives as its
  non-ensembled input exactly the three entries \<^verbatim>\<open>prev_pos\<close>, \<^verbatim>\<open>prev_msa_first_row\<close> and
  \<^verbatim>\<open>prev_pair\<close>: the structure module's \<^verbatim>\<open>final_atom_positions\<close> and the representations
  \<^verbatim>\<open>msa_first_row\<close> and \<^verbatim>\<open>pair\<close> of the output of the call before it, each with
  \<^verbatim>\<open>stop_gradient\<close> set; the final call included. What is returned is the output of the last
  call (without its \<^verbatim>\<open>'representations'\<close> entry unless \<^verbatim>\<open>return_representations\<close> is set).
\<close>

theorem recycling_driver_invocations:
  assumes "AlphaFold_forward net config batch ensemble_representations return_representations
             = (calls, Inr result)"
  shows "(case map_of batch ''num_iter_recycling'' of
            None \<Rightarrow> length calls = nat (num_recycle config) + 1
          | Some t \<Rightarrow> \<forall>override. ebind (index_axis0 t 0) py_int = Inr override \<longrightarrow>
                       length calls = nat (min override (num_recycle config)) + 1)
       \<and> (\<forall>c\<in>set calls.
             outcome c = AlphaFoldIteration_forward net (ensembled_batch c) (non_ensembled_batch c)
                           ensemble_representations
             \<and> (\<not> resample_msa_in_recycling config \<longrightarrow> ensembled_batch c = batch))
       \<and> (\<forall>k. Suc k < length calls \<longrightarrow>
             (\<exists>ret sm pos reps msa_first_row pair.
                outcome (calls ! k) = Inr ret
                \<and> dict_get (heads ret) ''structure_module'' = Inr sm
                \<and> dict_get sm ''final_atom_positions'' = Inr pos
                \<and> representations ret = Some reps
                \<and> dict_get reps ''msa_first_row'' = Inr msa_first_row
                \<and> dict_get reps ''pair'' = Inr pair
                \<and> non_ensembled_batch (calls ! Suc k)
                    = [(''prev_pos'', pos\<lparr>stop_gradient := True\<rparr>),
                       (''prev_msa_first_row'', msa_first_row\<lparr>stop_gradient := True\<rparr>),
                       (''prev_pair'', pair\<lparr>stop_gradient := True\<rparr>)]))
       \<and> (\<exists>ret. outcome (last calls) = Inr ret
             \<and> result = (if return_representations then ret else ret\<lparr>representations := None\<rparr>))"
  using assms
proof (cases rule: AlphaFold_forward_cases)
  case (no_recycling aatype call)
  then show ?thesis
    by (auto simp: ebind_Inr_iff split: option.splits)
next
  case (recycling aatype prev num_iter loopcalls prev' call)
  have "\<forall>k. Suc k < length calls \<longrightarrow>
             (\<exists>ret sm pos reps msa_first_row pair.
                outcome (calls ! k) = Inr ret
                \<and> dict_get (heads ret) ''structure_module'' = Inr sm
                \<and> dict_get sm ''final_atom_positions'' = Inr pos
                \<and> representations ret = Some reps
                \<and> dict_get reps ''msa_first_row'' = Inr msa_first_row
                \<and> dict_get reps ''pair'' = Inr pair
                \<and> non_ensembled_batch (calls ! Suc k)
                    = [(''prev_pos'', pos\<lparr>stop_gradient := True\<rparr>),
                       (''prev_msa_first_row'', msa_first_row\<lparr>stop_gradient := True\<rparr>),
                       (''prev_pair'', pair\<lparr>stop_gradient := True\<rparr>)])"
  proof (intro allI impI)
    fix k assume "Suc k < length calls"
    then have "ebind (outcome (calls ! k)) get_prev = Inr (non_ensembled_batch (calls ! Suc k))"
      using chained_snoc_nth [OF recycling(7) recycling(9)] recycling(8) by simp
    then show "\<exists>ret sm pos reps msa_first_row pair.
                outcome (calls ! k) = Inr ret
                \<and> dict_get (heads ret) ''structure_module'' = Inr sm
                \<and> dict_get sm ''final_atom_positions'' = Inr pos
                \<and> representations ret = Some reps
                \<and> dict_get reps ''msa_first_row'' = Inr msa_first_row
                \<and> dict_get reps ''pair'' = Inr pair
                \<and> non_ensembled_batch (calls ! Suc k)
                    = [(''prev_pos'', pos\<lparr>stop_gradient := True\<rparr>),
                       (''prev_msa_first_row'', msa_first_row\<lparr>stop_gradient := True\<rparr>),
                       (''prev_pair'', pair\<lparr>stop_gradient := True\<rparr>)]"
      by (rule get_prev_extracts)
  qed
  moreover have "\<exists>ret. outcome (last calls) = Inr ret
             \<and> result = (if return_representations then ret else ret\<lparr>representations := None\<rparr>)"
    using recycling(8,11) by (auto simp: ebind_Inr_iff)
  moreover have "case map_of batch ''num_iter_recycling'' of
            None \<Rightarrow> length calls = nat (num_recycle config) + 1
          | Some t \<Rightarrow> \<forall>override. ebind (index_axis0 t 0) py_int = Inr override \<longrightarrow>
                       length calls = nat (min override (num_recycle config)) + 1"
    using recycling(5,6,8) by (auto simp: recycling_num_iter_def ebind_Inr_iff split: option.splits)
  ultimately show ?thesis using recycling(12) by blast
qed

text \<open>
  A run with \<^verbatim>\<open>num_recycle = 3\<close> and a per-batch override of 2: three calls, each the
  iteration on its recorded arguments, the third receiving the three tensors that the
  second produced.
\<close>

lemma tiny_run_returns:
  "\<not> isl (snd (AlphaFold_forward tiny_net (tiny_config 3) (tiny_batch_override 1 2) False True))"
  by code_simp

theorem recycling_driver_invocations_witness:
  "length (fst (AlphaFold_forward tiny_net (tiny_config 3) (tiny_batch_override 1 2) False True)) = 3
   \<and> outcome (fst (AlphaFold_forward tiny_net (tiny_config 3) (tiny_batch_override 1 2) False True) ! 2)
       = AlphaFoldIteration_forward tiny_net (tiny_batch_override 1 2)
           (non_ensembled_batch (fst (AlphaFold_forward tiny_net (tiny_config 3) (tiny_batch_override 1 2) False True) ! 2))
           False
   \<and> (\<exists>ret sm pos reps msa_first_row pair.
        outcome (fst (AlphaFold_forward tiny_net (tiny_config 3) (tiny_batch_override 1 2) False True) ! 1) = Inr ret
        \<and> dict_get (heads ret) ''structure_module'' = Inr sm
        \<and> dict_get sm ''final_atom_positions'' = Inr pos
        \<and> representations ret = Some reps
        \<and> dict_get reps ''msa_first_row'' = Inr msa_first_row
        \<and> dict_get reps ''pair'' = Inr pair
        \<and> non_ensembled_batch (fst (AlphaFold_forward tiny_net (tiny_config 3) (tiny_batch_override 1 2) False True) ! 2)
            = [(''prev_pos'', pos\<lparr>stop_gradient := True\<rparr>),
               (''prev_msa_first_row'', msa_first_row\<lparr>stop_gradient := True\<rparr>),
               (''prev_pair'', pair\<lparr>stop_gradient := True\<rparr>)])"
proof -
  let ?run = "AlphaFold_forward tiny_net (tiny_config 3) (tiny_batch_override 1 2) False True"
  have ret: "?run = (fst ?run, Inr (projr (snd ?run)))"
    using tiny_run_returns by (cases ?run) (auto simp: isl_def)
  have ov: "map_of (tiny_batch_override 1 2) ''num_iter_recycling'' = Some (const_tensor [1, 1] 2)"
    by (simp add: tiny_batch_override_def tiny_batch_def)
  have pi: "ebind (index_axis0 (const_tensor [1, 1] 2) 0) py_int = Inr 2"
    by (simp add: index_axis0_def const_tensor_def py_int_def in_bounds_def)
  have rs: "\<not> resample_msa_in_recycling (tiny_config 3)" by (simp add: tiny_config_def)
  note inst = recycling_driver_invocations [OF ret]
  have len: "length (fst ?run) = 3"
    using inst ov pi by (simp add: tiny_config_def)
  have "fst ?run ! 2 \<in> set (fst ?run)" using len by simp
  then have made: "outcome (fst ?run ! 2)
       = AlphaFoldIteration_forward tiny_net (tiny_batch_override 1 2)
           (non_ensembled_batch (fst ?run ! 2)) False"
    using inst rs by metis
  from inst have "Suc 1 < length (fst ?run) \<longrightarrow>
        (\<exists>ret sm pos reps msa_first_row pair.
        outcome (fst ?run ! 1) = Inr ret
        \<and> dict_get (heads ret) ''structure_module'' = Inr sm
        \<and> dict_get sm ''final_atom_positions'' = Inr pos
        \<and> representations ret = Some reps
        \<and> dict_get reps ''msa_first_row'' = Inr msa_first_row
        \<and> dict_get reps ''pair'' = Inr pair
        \<and> non_ensembled_batch (fst ?run ! Suc 1)
            = [(''prev_pos'', pos\<lparr>stop_gradient := True\<rparr>),
               (''prev_msa_first_row'', msa_first_row\<lparr>stop_gradient := True\<rparr>),
               (''prev_pair'', pair\<lparr>stop_gradient := True\<rparr>)])"
    by blast
  with len made show ?thesis by (simp add: numeral_2_eq_2)
qed

text \<open>
  A batch whose \<^verbatim>\<open>num_iter_recycling\<close> is \<open>-1\<close>, with \<^verbatim>\<open>num_recycle = 3\<close>: \<open>num_iter\<close> is
  \<open>min(-1, 3) = -1\<close>, the loop over \<^verbatim>\<open>range(-1)\<close> is empty, and the final call is made: one
  call, not \<open>num_iter + 1 = 0\<close> calls.
\<close>

theorem negative_num_iter_counterexample:
  "recycling_num_iter (tiny_config 3) (tiny_batch_override 1 (- 1)) = Inr (- 1)
   \<and> \<not> isl (snd (AlphaFold_forward tiny_net (tiny_config 3) (tiny_batch_override 1 (- 1)) False True))
   \<and> length (fst (AlphaFold_forward tiny_net (tiny_config 3) (tiny_batch_override 1 (- 1)) False True)) = 1
   \<and> int (length (fst (AlphaFold_forward tiny_net (tiny_config 3) (tiny_batch_override 1 (- 1)) False True)))
       \<noteq> - 1 + 1"
  by code_simp

text \<open>
  C4, as the code has it. A run that returns normally with \<^verbatim>\<open>config.num_recycle = 0\<close>
  makes exactly one call of the iteration, and that call receives the empty recycling state
  (no \<^verbatim>\<open>prev_pos\<close>, \<^verbatim>\<open>prev_msa_first_row\<close> or \<^verbatim>\<open>prev_pair\<close> entry at all). A run with a
  non-zero \<^verbatim>\<open>num_recycle\<close> whose number of iterations is zero or less makes exactly one call
  too, and that call receives the three all-zero tensors of shapes \<open>[b, n, 37, 3]\<close>,
  \<open>[b, n, msa_channel]\<close> and \<open>[b, n, n, pair_channel]\<close>, for \<^verbatim>\<open>aatype\<close> of shape \<open>[b, e, n]\<close>.
  In both cases the call is the iteration applied to the recorded ensembled input and that
  recycling state, and its output is what the run returns (without its
  \<^verbatim>\<open>'representations'\<close> entry unless \<^verbatim>\<open>return_representations\<close> is set).
\<close>

theorem zero_recycling_single_pass:
  assumes fwd: "AlphaFold_forward net config batch ensemble_representations return_representations
             = (calls, Inr result)"
    and aatype: "dict_get batch ''aatype'' = Inr aatype" "shape aatype = [b, e, n]"
  shows "(num_recycle config = 0 \<longrightarrow>
            (\<exists>call ret. calls = [call] \<and> non_ensembled_batch call = []
               \<and> (\<not> resample_msa_in_recycling config \<longrightarrow> ensembled_batch call = batch)
               \<and> AlphaFoldIteration_forward net (ensembled_batch call) [] ensemble_representations = Inr ret
               \<and> outcome call = Inr ret
               \<and> result = (if return_representations then ret else ret\<lparr>representations := None\<rparr>)))
       \<and> (num_recycle config \<noteq> 0 \<and> (\<exists>num_iter\<le>0. recycling_num_iter config batch = Inr num_iter) \<longrightarrow>
            (\<exists>call ret. calls = [call]
               \<and> non_ensembled_batch call =
                  [(''prev_pos'',
                      \<lparr>shape = [b, n, atom_type_num, 3], data = (\<lambda>ix. 0), stop_gradient = True\<rparr>),
                   (''prev_msa_first_row'',
                      \<lparr>shape = [b, n, msa_channel (embeddings_and_evoformer config)],
                       data = (\<lambda>ix. 0), stop_gradient = True\<rparr>),
                   (''prev_pair'',
                      \<lparr>shape = [b, n, n, pair_channel (embeddings_and_evoformer config)],
                       data = (\<lambda>ix. 0), stop_gradient = True\<rparr>)]
               \<and> (\<not> resample_msa_in_recycling config \<longrightarrow> ensembled_batch call = batch)
               \<and> AlphaFoldIteration_forward net (ensembled_batch call)
                    [(''prev_pos'',
                      \<lparr>shape = [b, n, atom_type_num, 3], data = (\<lambda>ix. 0), stop_gradient = True\<rparr>),
                     (''prev_msa_first_row'',
                      \<lparr>shape = [b, n, msa_channel (embeddings_and_evoformer config)],
                       data = (\<lambda>ix. 0), stop_gradient = True\<rparr>),
                     (''prev_pair'',
                      \<lparr>shape = [b, n, n, pair_channel (embeddings_and_evoformer config)],
                       data = (\<lambda>ix. 0), stop_gradient = True\<rparr>)] ensemble_representations = Inr ret
               \<and> outcome call = Inr ret
               \<and> result = (if return_representations then ret else ret\<lparr>representations := None\<rparr>)))"
  using fwd
proof (cases rule: AlphaFold_forward_cases)
  case (no_recycling aatype call)
  from no_recycling(7) obtain ret where ret: "outcome call = Inr ret"
    "result = (if return_representations then ret else ret\<lparr>representations := None\<rparr>)"
    by (auto simp: ebind_Inr_iff)
  from no_recycling(4,8) have made: "outcome call
      = AlphaFoldIteration_forward net (ensembled_batch call) (non_ensembled_batch call) ensemble_representations"
    "\<not> resample_msa_in_recycling config \<longrightarrow> ensembled_batch call = batch"
    by simp_all
  from no_recycling(1,4,5) ret made show ?thesis by simp
next
  case (recycling aatype' prev num_iter loopcalls prev' call)
  from recycling(2) aatype have [simp]: "aatype' = aatype" by simp
  let ?zeros = "[(''prev_pos'',
                   \<lparr>shape = [b, n, atom_type_num, 3], data = (\<lambda>ix. 0::real), stop_gradient = True\<rparr>),
                (''prev_msa_first_row'',
                   \<lparr>shape = [b, n, msa_channel (embeddings_and_evoformer config)],
                    data = (\<lambda>ix. 0), stop_gradient = True\<rparr>),
                (''prev_pair'',
                   \<lparr>shape = [b, n, n, pair_channel (embeddings_and_evoformer config)],
                    data = (\<lambda>ix. 0), stop_gradient = True\<rparr>)]"
  from recycling(11) obtain ret where ret: "outcome call = Inr ret"
    "result = (if return_representations then ret else ret\<lparr>representations := None\<rparr>)"
    by (auto simp: ebind_Inr_iff)
  from recycling(8,12) have made: "outcome call
      = AlphaFoldIteration_forward net (ensembled_batch call) (non_ensembled_batch call) ensemble_representations"
    "\<not> resample_msa_in_recycling config \<longrightarrow> ensembled_batch call = batch"
    by simp_all
  have prev: "prev = ?zeros"
    using recycling(4) aatype(2)
    by (auto simp: initial_prev_def index_axis1_def ebind_Inr_iff Let_def zeros_like_def
        unsqueeze_last_def tile_def mk_tensor_zero split: if_splits)
  show ?thesis
  proof (intro conjI impI)
    assume "num_recycle config = 0"
    with recycling(1) show "\<exists>call ret. calls = [call] \<and> non_ensembled_batch call = []
               \<and> (\<not> resample_msa_in_recycling config \<longrightarrow> ensembled_batch call = batch)
               \<and> AlphaFoldIteration_forward net (ensembled_batch call) [] ensemble_representations = Inr ret
               \<and> outcome call = Inr ret
               \<and> result = (if return_representations then ret else ret\<lparr>representations := None\<rparr>)"
      by simp
  next
    assume "num_recycle config \<noteq> 0 \<and> (\<exists>num_iter\<le>0. recycling_num_iter config batch = Inr num_iter)"
    with recycling(5) have "num_iter \<le> 0" by auto
    with recycling(6,7) have "loopcalls = []" "prev' = prev" by auto
    with recycling(8,9) prev have "calls = [call]" "non_ensembled_batch call = ?zeros" by simp_all
    with ret made show "\<exists>call ret. calls = [call]
               \<and> non_ensembled_batch call = ?zeros
               \<and> (\<not> resample_msa_in_recycling config \<longrightarrow> ensembled_batch call = batch)
               \<and> AlphaFoldIteration_forward net (ensembled_batch call) ?zeros ensemble_representations = Inr ret
               \<and> outcome call = Inr ret
               \<and> result = (if return_representations then ret else ret\<lparr>representations := None\<rparr>)"
      by (intro exI [of _ call] exI [of _ ret]) simp
  qed
qed

theorem zero_recycling_single_pass_witness:
  "(\<exists>call ret. fst (AlphaFold_forward tiny_net (tiny_config 0) (tiny_batch 1) False True) = [call]
       \<and> non_ensembled_batch call = []
       \<and> ensembled_batch call = tiny_batch 1
       \<and> AlphaFoldIteration_forward tiny_net (tiny_batch 1) [] False = Inr ret
       \<and> snd (AlphaFold_forward tiny_net (tiny_config 0) (tiny_batch 1) False True) = Inr ret)
   \<and> (\<exists>call ret. fst (AlphaFold_forward tiny_net (tiny_config 3) (tiny_batch_override 1 0) False True) = [call]
       \<and> non_ensembled_batch call =
               [(''prev_pos'',
                   \<lparr>shape = [1, 2, atom_type_num, 3], data = (\<lambda>ix. 0), stop_gradient = True\<rparr>),
                (''prev_msa_first_row'',
                   \<lparr>shape = [1, 2, 5], data = (\<lambda>ix. 0), stop_gradient = True\<rparr>),
                (''prev_pair'',
                   \<lparr>shape = [1, 2, 2, 3], data = (\<lambda>ix. 0), stop_gradient = True\<rparr>)]
       \<and> AlphaFoldIteration_forward tiny_net (tiny_batch_override 1 0)
               [(''prev_pos'',
                   \<lparr>shape = [1, 2, atom_type_num, 3], data = (\<lambda>ix. 0), stop_gradient = True\<rparr>),
                (''prev_msa_first_row'',
                   \<lparr>shape = [1, 2, 5], data = (\<lambda>ix. 0), stop_gradient = True\<rparr>),
                (''prev_pair'',
                   \<lparr>shape = [1, 2, 2, 3], data = (\<lambda>ix. 0), stop_gradient = True\<rparr>)] False = Inr ret
       \<and> snd (AlphaFold_forward tiny_net (tiny_config 3) (tiny_batch_override 1 0) False True) = Inr ret)"
proof -
  let ?run0 = "AlphaFold_forward tiny_net (tiny_config 0) (tiny_batch 1) False True"
  let ?run3 = "AlphaFold_forward tiny_net (tiny_config 3) (tiny_batch_override 1 0) False True"
  have "\<not> isl (snd ?run0)" by code_simp
  then have ret0: "?run0 = (fst ?run0, Inr (projr (snd ?run0)))"
    by (cases ?run0) (auto simp: isl_def)
  have "\<not> isl (snd ?run3)" by code_simp
  then have ret3: "?run3 = (fst ?run3, Inr (projr (snd ?run3)))"
    by (cases ?run3) (auto simp: isl_def)
  have a0: "dict_get (tiny_batch 1) ''aatype'' = Inr (const_tensor [1, 1, 2] 0)"
    by (simp add: dict_get_def tiny_batch_def)
  have a3: "dict_get (tiny_batch_override 1 0) ''aatype'' = Inr (const_tensor [1, 1, 2] 0)"
    by (simp add: dict_get_def tiny_batch_def tiny_batch_override_def)
  have sh: "shape (const_tensor [1, 1, 2] 0) = [1, 1, 2]"
    by (simp add: const_tensor_def)
  have ni: "recycling_num_iter (tiny_config 3) (tiny_batch_override 1 0) = Inr 0"
    by (simp add: recycling_num_iter_def tiny_batch_override_def tiny_batch_def tiny_config_def
        index_axis0_def const_tensor_def py_int_def)
  have c0: "num_recycle (tiny_config 0) = 0" "\<not> resample_msa_in_recycling (tiny_config 0)"
    and c3: "num_recycle (tiny_config 3) \<noteq> 0" "\<not> resample_msa_in_recycling (tiny_config 3)"
      "embeddings_and_evoformer (tiny_config 3) = \<lparr>msa_channel = 5, pair_channel = 3\<rparr>"
    by (simp_all add: tiny_config_def)
  from zero_recycling_single_pass [OF ret0 a0 sh] c0
  have first: "\<exists>call ret. fst ?run0 = [call] \<and> non_ensembled_batch call = []
       \<and> ensembled_batch call = tiny_batch 1
       \<and> AlphaFoldIteration_forward tiny_net (tiny_batch 1) [] False = Inr ret
       \<and> snd ?run0 = Inr ret"
    using ret0 by (metis snd_conv)
  from zero_recycling_single_pass [OF ret3 a3 sh] c3 ni
  have second: "\<exists>call ret. fst ?run3 = [call]
       \<and> non_ensembled_batch call =
               [(''prev_pos'',
                   \<lparr>shape = [1, 2, atom_type_num, 3], data = (\<lambda>ix. 0), stop_gradient = True\<rparr>),
                (''prev_msa_first_row'',
                   \<lparr>shape = [1, 2, 5], data = (\<lambda>ix. 0), stop_gradient = True\<rparr>),
                (''prev_pair'',
                   \<lparr>shape = [1, 2, 2, 3], data = (\<lambda>ix. 0), stop_gradient = True\<rparr>)]
       \<and> AlphaFoldIteration_forward tiny_net (tiny_batch_override 1 0)
               [(''prev_pos'',
                   \<lparr>shape = [1, 2, atom_type_num, 3], data = (\<lambda>ix. 0), stop_gradient = True\<rparr>),
                (''prev_msa_first_row'',
                   \<lparr>shape = [1, 2, 5], data = (\<lambda>ix. 0), stop_gradient = True\<rparr>),
                (''prev_pair'',
                   \<lparr>shape = [1, 2, 2, 3], data = (\<lambda>ix. 0), stop_gradient = True\<rparr>)] False = Inr ret
       \<and> snd ?run3 = Inr ret"
    using ret3 by (metis snd_conv order_refl embeddings_config.select_convs)
  from first second show ?thesis by blast
qed

text \<open>
  With \<^verbatim>\<open>num_recycle = 0\<close> the only call receives no recycling tensors, so its
  recycling state is not made of all-zero tensors.
\<close>

theorem zero_recycle_empty_state_counterexample:
  "num_recycle (tiny_config 0) = 0
   \<and> \<not> isl (snd (AlphaFold_forward tiny_net (tiny_config 0) (tiny_batch 1) False True))
   \<and> length (fst (AlphaFold_forward tiny_net (tiny_config 0) (tiny_batch 1) False True)) = 1
   \<and> map fst (non_ensembled_batch
         (hd (fst (AlphaFold_forward tiny_net (tiny_config 0) (tiny_batch 1) False True)))) = []"
  by code_simp

section \<open>Properties of one iteration\<close>

text \<open>
  C9, as the code has it. The assertion of \<^verbatim>\<open>AlphaFoldIteration.forward\<close> guards the call
  without ensembling: when \<^verbatim>\<open>ensemble_representations\<close> is false and the batch does not hold
  exactly one ensemble member, the call fails with an assertion error before any layer
  runs.
\<close>

theorem iteration_without_ensembling_asserts_one_member:
  assumes "dict_get ens_batch ''seq_length'' = Inr seq_length"
    and "2 \<le> length (shape seq_length)" and "shape seq_length ! 1 \<noteq> 1"
  shows "AlphaFoldIteration_forward net ens_batch prev False = Inl AssertionError"
  using assms by (simp add: AlphaFoldIteration_forward_def)

theorem iteration_without_ensembling_asserts_one_member_witness:
  "AlphaFoldIteration_forward tiny_net (tiny_batch 2) [] False = Inl AssertionError"
proof -
  have "dict_get (tiny_batch 2) ''seq_length'' = Inr (const_tensor [1, 2] 2)"
    by (simp add: dict_get_def tiny_batch_def)
  from iteration_without_ensembling_asserts_one_member [OF this]
  show ?thesis by (simp add: const_tensor_def)
qed

text \<open>
  Ensembling requested on a batch with a single ensemble member does not fail: the call
  returns normally.
\<close>

theorem ensembling_one_member_counterexample:
  "shape (projr (dict_get (tiny_batch 1) ''seq_length'')) ! 1 = 1
   \<and> \<not> isl (AlphaFoldIteration_forward tiny_net (tiny_batch 1) [] True)"
  by code_simp

subsection \<open>Ensembling\<close>

lemma map2_same: "map2 (\<lambda>x y. if x = 1 then y else x) s s = (s :: nat list)"
  by (induction s) auto

lemma bcast_shape_same: "bcast_shape s s = Some s"
  using map2_same [of s] by (simp add: bcast_shape_def pad_shape_def list_all2_same)

lemma bcast_index_zip:
  "list_all2 (<) ix sh \<Longrightarrow> map2 (\<lambda>d i. if d = 1 then 0 else i) sh ix = (ix :: nat list)"
  by (induction ix sh rule: list_all2_induct) auto

lemma bcast_index_in_bounds: "in_bounds sh ix \<Longrightarrow> bcast_index sh ix = ix"
  using bcast_index_zip [of ix sh] by (simp add: in_bounds_def bcast_index_def)

lemma tadd_same_shape:
  assumes "shape u = shape v"
  obtains w where "tadd v u = Inr w" "shape w = shape v"
    "\<And>ix. in_bounds (shape v) ix \<Longrightarrow> data w ix = data v ix + data u ix"
  using assms by (simp add: tadd_def tbinop_def bcast_shape_same bcast_index_in_bounds)

lemma add_update_lookup:
  assumes "add_update reps upd = Inr out" "map_of reps k = Some v"
  shows "\<exists>u w. map_of upd k = Some u \<and> tadd v u = Inr w \<and> map_of out k = Some w"
  using assms unfolding add_update_def
proof (induction reps arbitrary: out)
  case Nil
  then show ?case by simp
next
  case (Cons kv reps)
  obtain k' v' where kv: "kv = (k', v')" by (cases kv)
  from Cons.prems(1) kv obtain u w rest where
    u: "dict_get upd k' = Inr u" and w: "tadd v' u = Inr w"
    and rest: "emap (\<lambda>(k, v). ebind (dict_get upd k) (\<lambda>u. ebind (tadd v u) (\<lambda>w. Inr (k, w)))) reps = Inr rest"
    and out: "out = (k', w) # rest"
    by (auto simp: ebind_Inr_iff)
  show ?case
  proof (cases "k' = k")
    case True
    with Cons.prems(2) kv u w out show ?thesis
      by (auto simp: dict_get_def split: option.splits)
  next
    case False
    with Cons.prems(2) kv have "map_of reps k = Some v" by simp
    from Cons.IH [OF rest this] False out show ?thesis by simp
  qed
qed

lemma map_of_dict_update_other:
  "k \<notin> fst ` set e \<Longrightarrow> map_of (dict_update d e) k = map_of d k"
  unfolding dict_update_def
  by (induction e arbitrary: d) (auto simp: update_conv')

lemma run_heads_keeps:
  assumes "run_heads net batch0 hs reps ret = Inr (reps', ret')"
    and "\<And>name r b out extra. head net name r b = Inr out \<Longrightarrow> extra_representations out = Some extra
           \<Longrightarrow> k \<notin> fst ` set extra"
  shows "map_of reps' k = map_of reps k"
  using assms(1)
proof (induction hs arbitrary: reps ret)
  case Nil
  then show ?case by simp
next
  case (Cons h hs)
  from Cons.prems obtain out where out: "head net h reps batch0 = Inr out"
    and rec: "run_heads net batch0 hs
         (case extra_representations out of None \<Rightarrow> reps | Some r \<Rightarrow> dict_update reps r)
         (AList.update h (outputs out) ret) = Inr (reps', ret')"
    by (auto simp: ebind_Inr_iff)
  from Cons.IH [OF rec] have "map_of reps' k
    = map_of (case extra_representations out of None \<Rightarrow> reps | Some r \<Rightarrow> dict_update reps r) k" .
  also have "\<dots> = map_of reps k"
    using assms(2) [OF out] by (auto split: option.splits simp: map_of_dict_update_other)
  finally show ?case .
qed

lemma ensemble_loop_sum:
  assumes "ensemble_loop net ens prev idxs reps = Inr out"
    and "\<And>i. i \<in> set idxs \<Longrightarrow> ebind (slice_batch ens prev i) (evoformer net) = Inr (member i)"
    and "map_of reps k = Some t0"
    and "\<And>i. i \<in> set idxs \<Longrightarrow> map_option shape (map_of (member i) k) = Some (shape t0)"
  shows "\<exists>t. map_of out k = Some t \<and> shape t = shape t0
     \<and> (\<forall>ix. in_bounds (shape t0) ix \<longrightarrow>
           data t ix = data t0 ix + (\<Sum>i\<leftarrow>idxs. data (the (map_of (member i) k)) ix))"
  using assms
proof (induction idxs arbitrary: reps t0)
  case Nil
  then show ?case by simp
next
  case (Cons i rest)
  from Cons.prems(1) obtain batch upd reps' where
    b: "slice_batch ens prev i = Inr batch" and upd: "evoformer net batch = Inr upd"
    and add: "add_update reps upd = Inr reps'"
    and rec: "ensemble_loop net ens prev rest reps' = Inr out"
    by (auto simp: ebind_Inr_iff)
  from Cons.prems(2) [of i] b upd have mi: "member i = upd" by simp
  from add_update_lookup [OF add Cons.prems(3)] obtain u w where
    u: "map_of upd k = Some u" and w: "tadd t0 u = Inr w" and w': "map_of reps' k = Some w"
    by blast
  from Cons.prems(4) [of i] mi u have su: "shape u = shape t0" by simp
  from tadd_same_shape [OF su] w have sw: "shape w = shape t0"
    and dw: "\<And>ix. in_bounds (shape t0) ix \<Longrightarrow> data w ix = data t0 ix + data u ix"
    by auto
  have "\<exists>t. map_of out k = Some t \<and> shape t = shape w
     \<and> (\<forall>ix. in_bounds (shape w) ix \<longrightarrow>
           data t ix = data w ix + (\<Sum>i\<leftarrow>rest. data (the (map_of (member i) k)) ix))"
    using Cons.prems(2,4) sw by (intro Cons.IH [OF rec _ w']) auto
  then show ?case using sw dw mi u by (auto simp: add.assoc)
qed

lemma map_of_map_values:
  "map_of (map (\<lambda>(k, v). (k, f v)) d) k = map_option f (map_of d k)"
  by (induction d) auto

text \<open>
  C2. Let a call with \<^verbatim>\<open>ensemble_representations\<close> set return normally on a batch of
  \<open>n\<close> ensemble members, let \<open>member i\<close> be what the orchestrator returns on member \<open>i\<close>
  alone, let the members' outputs have equal shapes, and let no head rebind one of the
  orchestrator's keys. Then each of the returned \<^verbatim>\<open>pair\<close>, \<^verbatim>\<open>single\<close> and
  \<^verbatim>\<open>msa_first_row\<close> representations has, at every index, the arithmetic mean of the \<open>n\<close>
  members' entries, and the returned \<^verbatim>\<open>msa\<close> representation is the first member's,
  unchanged.
\<close>

theorem ensembled_representations_mean:
  assumes fwd: "AlphaFoldIteration_forward net ens_batch prev True = Inr ret"
    and n: "dict_get ens_batch ''seq_length'' = Inr seq_length" "num_ensemble = shape seq_length ! 1"
    and members: "\<forall>i<num_ensemble. ebind (slice_batch ens_batch prev i) (evoformer net) = Inr (member i)"
    and shapes: "\<forall>i<num_ensemble. \<forall>k\<in>{''pair'', ''single'', ''msa_first_row''}.
                   map_option shape (map_of (member i) k) = map_option shape (map_of (member 0) k)"
    and hds: "\<forall>name reps b out extra. head net name reps b = Inr out \<and> extra_representations out = Some extra
                \<longrightarrow> fst ` set extra \<inter> {''pair'', ''single'', ''msa_first_row'', ''msa''} = {}"
  shows "\<exists>reps. representations ret = Some reps
     \<and> (\<forall>k\<in>{''pair'', ''single'', ''msa_first_row''}. \<forall>t0. map_of (member 0) k = Some t0 \<longrightarrow>
          (\<exists>t. map_of reps k = Some t \<and> shape t = shape t0
             \<and> (\<forall>ix. in_bounds (shape t) ix \<longrightarrow>
                   data t ix = (\<Sum>i<num_ensemble. data (the (map_of (member i) k)) ix) / real num_ensemble)))
     \<and> map_of reps ''msa'' = map_of (member 0) ''msa''
     \<and> map_of (member 0) ''msa'' \<noteq> None"
proof -
  from fwd n obtain batch0 reps0 msa reps1 head_names reps2 hret where
    b0: "slice_batch ens_batch prev 0 = Inr batch0" and r0: "evoformer net batch0 = Inr reps0"
    and msa: "dict_get reps0 ''msa'' = Inr msa"
    and loop: "ebind (ensemble_loop net ens_batch prev [1..<num_ensemble] (AList.delete ''msa'' reps0))
                 (\<lambda>summed. Inr (map (\<lambda>(k, v). (k, tdiv_scalar v (real num_ensemble + 0.0))) summed)) = Inr reps1"
    and hs: "run_heads net batch0 head_names (AList.update ''msa'' msa reps1) [] = Inr (reps2, hret)"
    and ret: "ret = \<lparr>representations = Some reps2, heads = hret\<rparr>"
    by (auto simp: AlphaFoldIteration_forward_def ebind_Inr_iff Let_def split: if_splits)
  from loop obtain summed where
    summed: "ensemble_loop net ens_batch prev [1..<num_ensemble] (AList.delete ''msa'' reps0) = Inr summed"
    and reps1: "reps1 = map (\<lambda>(k, v). (k, tdiv_scalar v (real num_ensemble))) summed"
    by (auto simp: ebind_Inr_iff)
  have pos: "0 < num_ensemble"
  proof -
    from n(1) have "(''seq_length'', seq_length) \<in> set ens_batch"
      by (auto simp: dict_get_def split: option.splits dest: map_of_SomeD)
    with b0 have "\<exists>vi. index_axis1 seq_length 0 = Inr vi"
      unfolding slice_batch_def ebind_Inr_iff
    proof (induction ens_batch arbitrary: batch0)
      case Nil
      then show ?case by simp
    next
      case (Cons a ens_batch)
      then show ?case by (auto simp: ebind_Inr_iff)
    qed
    then show ?thesis using n(2) by (auto simp: index_axis1_def split: if_splits)
  qed
  with members b0 r0 have m0: "member 0 = reps0" by auto
  have keep: "map_of reps2 k = map_of (AList.update ''msa'' msa reps1) k"
    if "k \<in> {''pair'', ''single'', ''msa_first_row'', ''msa''}" for k
    using hds that by (intro run_heads_keeps [OF hs]) blast
  have mean: "\<exists>t. map_of reps2 k = Some t \<and> shape t = shape t0
             \<and> (\<forall>ix. in_bounds (shape t) ix \<longrightarrow>
                   data t ix = (\<Sum>i<num_ensemble. data (the (map_of (member i) k)) ix) / real num_ensemble)"
    if k: "k \<in> {''pair'', ''single'', ''msa_first_row''}" and t0: "map_of (member 0) k = Some t0" for k t0
  proof -
    from k have kmsa: "k \<noteq> ''msa''" by auto
    with t0 m0 have d: "map_of (AList.delete ''msa'' reps0) k = Some t0"
      by (simp add: delete_conv')
    have "\<exists>t. map_of summed k = Some t \<and> shape t = shape t0
     \<and> (\<forall>ix. in_bounds (shape t0) ix \<longrightarrow>
           data t ix = data t0 ix + (\<Sum>i\<leftarrow>[1..<num_ensemble]. data (the (map_of (member i) k)) ix))"
    proof (rule ensemble_loop_sum [OF summed _ d])
      fix i assume "i \<in> set [1..<num_ensemble]"
      then have i: "i < num_ensemble" by simp
      with members show "ebind (slice_batch ens_batch prev i) (evoformer net) = Inr (member i)" by blast
      from shapes i k t0 show "map_option shape (map_of (member i) k) = Some (shape t0)" by auto
    qed
    then obtain ts where ts: "map_of summed k = Some ts" "shape ts = shape t0"
      "\<And>ix. in_bounds (shape t0) ix \<Longrightarrow>
           data ts ix = data t0 ix + (\<Sum>i\<leftarrow>[1..<num_ensemble]. data (the (map_of (member i) k)) ix)"
      by blast
    have split: "(\<Sum>i<num_ensemble. f i) = f 0 + (\<Sum>i\<leftarrow>[1..<num_ensemble]. f i)" for f :: "nat \<Rightarrow> real"
    proof -
      have "(\<Sum>i<num_ensemble. f i) = (\<Sum>i\<in>{0..<num_ensemble}. f i)"
        by (simp add: lessThan_atLeast0)
      also have "\<dots> = f 0 + (\<Sum>i\<in>{Suc 0..<num_ensemble}. f i)"
        using pos by (simp add: sum.atLeast_Suc_lessThan)
      also have "(\<Sum>i\<in>{Suc 0..<num_ensemble}. f i) = (\<Sum>i\<leftarrow>[1..<num_ensemble]. f i)"
        by (simp add: interv_sum_list_conv_sum_set_nat)
      finally show ?thesis .
    qed
    have "map_of reps2 k = Some (tdiv_scalar ts (real num_ensemble))"
      using keep [of k] k kmsa ts(1) by (auto simp: reps1 update_conv' map_of_map_values)
    moreover have "data (tdiv_scalar ts (real num_ensemble)) ix
        = (\<Sum>i<num_ensemble. data (the (map_of (member i) k)) ix) / real num_ensemble"
      if "in_bounds (shape t0) ix" for ix
      using ts(3) [OF that] t0 by (simp add: tdiv_scalar_def split)
    ultimately show ?thesis using ts(2) by (auto simp: tdiv_scalar_def)
  qed
  have "map_of reps2 ''msa'' = Some msa"
    using keep [of "''msa''"] by (simp add: update_conv')
  moreover have "map_of (member 0) ''msa'' = Some msa"
    using msa m0 by (auto simp: dict_get_def split: option.splits)
  ultimately show ?thesis using ret mean by auto
qed

text \<open>Three members with outputs 1, 2 and 3: the mean is 2, and \<^verbatim>\<open>msa\<close> is the first member's 1.\<close>

theorem ensembled_representations_mean_witness:
  "\<exists>reps t m. representations (projr (AlphaFoldIteration_forward tiny_net (tiny_batch 3) [] True)) = Some reps
     \<and> map_of reps ''pair'' = Some t \<and> shape t = [1, 2, 2, 3] \<and> data t [0, 1, 1, 2] = 2
     \<and> map_of reps ''msa'' = Some m \<and> data m [0, 0, 1, 4] = 1"
proof -
  let ?ret = "AlphaFoldIteration_forward tiny_net (tiny_batch 3) [] True"
  define member where "member = (\<lambda>i::nat.
     [(''single'', const_tensor [1, 2, 4] (1 + real i)), (''pair'', const_tensor [1, 2, 2, 3] (1 + real i)),
      (''msa'', const_tensor [1, 1, 2, 5] (1 + real i)), (''msa_first_row'', const_tensor [1, 2, 5] (1 + real i))])"
  have "\<not> isl ?ret" by code_simp
  then have fwd: "?ret = Inr (projr ?ret)" by (cases ?ret) auto
  have n: "dict_get (tiny_batch 3) ''seq_length'' = Inr (const_tensor [1, 3] 2)"
    "3 = shape (const_tensor [1, 3] 2) ! 1"
    by (simp_all add: dict_get_def tiny_batch_def const_tensor_def)
  have members: "\<forall>i<3. ebind (slice_batch (tiny_batch 3) [] i) (evoformer tiny_net) = Inr (member i)"
    by (simp add: slice_batch_def tiny_batch_def index_axis1_def const_tensor_def dict_update_def
        tiny_net_def member_def Let_def)
  have shapes: "\<forall>i<3. \<forall>k\<in>{''pair'', ''single'', ''msa_first_row''}.
                   map_option shape (map_of (member i) k) = map_option shape (map_of (member 0) k)"
    by (simp add: member_def const_tensor_def)
  have hds: "\<forall>name reps b out extra. head tiny_net name reps b = Inr out \<and> extra_representations out = Some extra
                \<longrightarrow> fst ` set extra \<inter> {''pair'', ''single'', ''msa_first_row'', ''msa''} = {}"
    by (auto simp: tiny_net_def)
  from ensembled_representations_mean [OF fwd n members shapes hds]
  obtain reps where reps: "representations (projr ?ret) = Some reps"
    and mean: "\<forall>k\<in>{''pair'', ''single'', ''msa_first_row''}. \<forall>t0. map_of (member 0) k = Some t0 \<longrightarrow>
          (\<exists>t. map_of reps k = Some t \<and> shape t = shape t0
             \<and> (\<forall>ix. in_bounds (shape t) ix \<longrightarrow>
                   data t ix = (\<Sum>i<3. data (the (map_of (member i) k)) ix) / real 3))"
    and msa: "map_of reps ''msa'' = map_of (member 0) ''msa''"
    by (elim exE conjE)
  have m0: "map_of (member 0) ''pair'' = Some (const_tensor [1, 2, 2, 3] 1)"
    by (simp add: member_def)
  from mean have "\<forall>t0. map_of (member 0) ''pair'' = Some t0 \<longrightarrow>
          (\<exists>t. map_of reps ''pair'' = Some t \<and> shape t = shape t0
             \<and> (\<forall>ix. in_bounds (shape t) ix \<longrightarrow>
                   data t ix = (\<Sum>i<3. data (the (map_of (member i) ''pair'')) ix) / real 3))"
    by simp
  with m0 have "\<exists>t. map_of reps ''pair'' = Some t \<and> shape t = shape (const_tensor [1, 2, 2, 3] 1)
             \<and> (\<forall>ix. in_bounds (shape t) ix \<longrightarrow>
                   data t ix = (\<Sum>i<3. data (the (map_of (member i) ''pair'')) ix) / real 3)"
    by simp
  then obtain t where t: "map_of reps ''pair'' = Some t" "shape t = shape (const_tensor [1, 2, 2, 3] 1)"
    "\<forall>ix. in_bounds (shape t) ix \<longrightarrow>
        data t ix = (\<Sum>i<3. data (the (map_of (member i) ''pair'')) ix) / real 3"
    by (elim exE conjE)
  have sh: "shape t = [1, 2, 2, 3]" using t(2) by (simp add: const_tensor_def)
  have "in_bounds (shape t) [0, 1, 1, 2]" by (simp add: sh in_bounds_def)
  with t(3) have "data t [0, 1, 1, 2] = (\<Sum>i<3. data (the (map_of (member i) ''pair'')) [0, 1, 1, 2]) / real 3"
    by simp
  also have "\<dots> = 2"
    by (simp add: member_def const_tensor_def eval_nat_numeral)
  finally have d: "data t [0, 1, 1, 2] = 2" .
  have "map_of reps ''msa'' = Some (const_tensor [1, 1, 2, 5] 1)"
    using msa by (simp add: member_def)
  with reps t(1) sh d show ?thesis by (simp add: const_tensor_def)
qed

section \<open>Properties of the distogram head\<close>

lemma upt_2: "[0..<2] = [0, 1]"
  by (simp add: upt_rec numeral_eq_Suc)

lemma upt_4: "[0..<4] = [0, 1, 2, 3]"
  by (simp add: upt_rec numeral_eq_Suc)

lemma transpose_0213:
  assumes "transpose_perm t [0, 2, 1, 3] = Inr u" "shape t = [b, n, m, k]"
  shows "shape u = [b, m, n, k]"
    "in_bounds [b, m, n, k] [bi, i, j, bin] \<Longrightarrow> data u [bi, i, j, bin] = data t [bi, j, i, bin]"
proof -
  from assms have u: "u = mk_tensor (map (\<lambda>p. shape t ! p) [0, 2, 1, 3])
                  (\<lambda>ix. data t (map (\<lambda>d. ix ! length (takeWhile (\<lambda>p. p \<noteq> d) [0, 2, 1, 3]))
                                            [0..<length [0, 2, 1, 3::nat]])) (stop_gradient t)"
    unfolding transpose_perm_def by (simp split: if_splits)
  show "shape u = [b, m, n, k]" unfolding u using assms(2) by simp
  show "data u [bi, i, j, bin] = data t [bi, j, i, bin]" if "in_bounds [b, m, n, k] [bi, i, j, bin]"
    unfolding u using that assms(2) by (simp add: upt_4)
qed

lemma linear_shape:
  assumes "linear w b x = Inr y" "shape x = [d0, d1, d2, c]"
  shows "shape y = [d0, d1, d2, shape w ! 1]"
  using assms unfolding linear_def by (auto split: if_splits)

lemma DistogramHead_forward_logits:
  assumes "DistogramHead_forward self config reps batch = Inr out"
  obtains pair half transposed logits where
    "dict_get reps ''pair'' = Inr pair"
    "linear (half_logits_weight self) (half_logits_bias self) pair = Inr half"
    "transpose_perm half [0, 2, 1, 3] = Inr transposed"
    "tadd half transposed = Inr logits"
    "map_of out ''logits'' = Some logits"
  using assms unfolding DistogramHead_forward_def ebind_Inr_iff Let_def by fastforce

text \<open>
  C6. For a pair representation of shape \<open>[b, n, n, c]\<close> on which the head returns, the
  logits have shape \<open>[b, n, n, bins]\<close> and are symmetric under swapping the two residue
  indices, for every batch index and every bin.
\<close>

theorem distogram_logits_symmetric:
  assumes fwd: "DistogramHead_forward self config reps batch = Inr out"
    and pair: "dict_get reps ''pair'' = Inr pair" "shape pair = [b, n, n, c]"
  shows "\<exists>logits. map_of out ''logits'' = Some logits
     \<and> shape logits = [b, n, n, shape (half_logits_weight self) ! 1]
     \<and> (\<forall>bi<b. \<forall>i<n. \<forall>j<n. \<forall>bin<shape (half_logits_weight self) ! 1.
           data logits [bi, i, j, bin] = data logits [bi, j, i, bin])"
proof -
  let ?k = "shape (half_logits_weight self) ! 1"
  from fwd obtain pair' half transposed logits where
    pair': "dict_get reps ''pair'' = Inr pair'"
    and half: "linear (half_logits_weight self) (half_logits_bias self) pair' = Inr half"
    and tr: "transpose_perm half [0, 2, 1, 3] = Inr transposed"
    and logits: "tadd half transposed = Inr logits"
    and out: "map_of out ''logits'' = Some logits"
    by (rule DistogramHead_forward_logits)
  from pair' pair(1) have "pair' = pair" by simp
  with half pair(2) have sh: "shape half = [b, n, n, ?k]"
    by (simp add: linear_shape)
  from transpose_0213 [OF tr sh] have sht: "shape transposed = [b, n, n, ?k]"
    and dt: "\<And>bi i j bin. in_bounds [b, n, n, ?k] [bi, i, j, bin]
               \<Longrightarrow> data transposed [bi, i, j, bin] = data half [bi, j, i, bin]"
    by simp_all
  from sh sht have "shape transposed = shape half" by simp
  from tadd_same_shape [OF this] logits have shl: "shape logits = [b, n, n, ?k]"
    and dl: "\<And>ix. in_bounds [b, n, n, ?k] ix \<Longrightarrow> data logits ix = data half ix + data transposed ix"
    using sh by auto
  have "data logits [bi, i, j, bin] = data logits [bi, j, i, bin]"
    if "bi < b" "i < n" "j < n" "bin < ?k" for bi i j bin
  proof -
    from that have "in_bounds [b, n, n, ?k] [bi, i, j, bin]" "in_bounds [b, n, n, ?k] [bi, j, i, bin]"
      by simp_all
    then show ?thesis by (simp add: dl dt)
  qed
  with out shl show ?thesis by blast
qed

lemma tiny_distogram_returns:
  "\<not> isl (DistogramHead_forward tiny_distogram_head
       \<lparr>first_break = 2, last_break = 22, num_bins = 2\<rparr> [(''pair'', tiny_pair)] [])"
  by code_simp

theorem distogram_logits_symmetric_witness:
  "\<exists>logits. map_of (projr (DistogramHead_forward tiny_distogram_head
       \<lparr>first_break = 2, last_break = 22, num_bins = 2\<rparr> [(''pair'', tiny_pair)] [])) ''logits''
       = Some logits
     \<and> shape logits = [1, 2, 2, 2] \<and> data logits [0, 0, 1, 1] = data logits [0, 1, 0, 1]"
proof -
  let ?out = "DistogramHead_forward tiny_distogram_head
       \<lparr>first_break = 2, last_break = 22, num_bins = 2\<rparr> [(''pair'', tiny_pair)] []"
  have fwd: "?out = Inr (projr ?out)"
    using tiny_distogram_returns by (cases ?out) auto
  have pair: "dict_get [(''pair'', tiny_pair)] ''pair'' = Inr tiny_pair" "shape tiny_pair = [1, 2, 2, 1]"
    by (simp_all add: dict_get_def tiny_pair_def)
  have k: "shape (half_logits_weight tiny_distogram_head) ! 1 = 2"
    by (simp add: tiny_distogram_head_def)
  from distogram_logits_symmetric [OF fwd pair] show ?thesis
    unfolding k by fastforce
qed

section \<open>Properties of the Evoformer block\<close>

lemma residual_updateE:
  assumes "residual_update name sublayer_output dropout act trail = Inr (act', trail')"
  obtains residual where "sublayer_output = Inr residual" "tadd act (dropout residual) = Inr act'"
    "trail' = trail @ [name]"
  using assms by (auto simp: residual_update_def elim!: ebindE)

text \<open>
  C8. A call of the block that returns normally has run nine sublayers, in this order:
  MSA row attention with pair bias, MSA column attention (the global variant when the block
  is on the extra-MSA track), MSA transition, outer product mean, triangle multiplication
  outgoing, triangle multiplication incoming, triangle attention starting node, triangle
  attention ending node, pair transition. Each sublayer is applied to the activation as
  updated so far, and its output, after dropout, is added to that activation: the first
  three to the MSA activation, the other six to the pair activation. The result holds the
  two sums.
\<close>

theorem evoformer_block_order_and_residuals:
  assumes fwd: "EvoformerIteration_forward self activations masks = Inr (out, trail)"
  shows "trail = [''msa_row_attention_with_pair_bias'',
                (if is_extra_msa self then ''msa_column_global_attention'' else ''msa_column_attention''),
                ''msa_transition'', ''outer_product_mean'', ''triangle_multiplication_outgoing'',
                ''triangle_multiplication_incoming'', ''triangle_attention_starting_node'',
                ''triangle_attention_ending_node'', ''pair_transition'']
     \<and> (\<exists>msa0 pair0 msa_mask pair_mask r1 r2 r3 r4 r5 r6 r7 r8 r9 msa1 msa2 msa3
           pair1 pair2 pair3 pair4 pair5 pair6.
          dict_get activations ''msa'' = Inr msa0 \<and> dict_get activations ''pair'' = Inr pair0
        \<and> dict_get masks ''msa'' = Inr msa_mask \<and> dict_get masks ''pair'' = Inr pair_mask
        \<and> msa_row_attention_with_pair_bias self msa0 msa_mask pair0 = Inr r1
        \<and> tadd msa0 (msa_row_attn_dropout self r1) = Inr msa1
        \<and> (if is_extra_msa self then msa_column_global_attention self msa1 msa_mask
            else msa_column_attention self msa1 msa_mask) = Inr r2
        \<and> tadd msa1 (msa_col_attn_dropout self r2) = Inr msa2
        \<and> msa_transition self msa2 msa_mask = Inr r3
        \<and> tadd msa2 (msa_transition_dropout self r3) = Inr msa3
        \<and> outer_product_mean self msa3 msa_mask = Inr r4
        \<and> tadd pair0 (outer_product_mean_dropout self r4) = Inr pair1
        \<and> triangle_multiplication_outgoing self pair1 pair_mask = Inr r5
        \<and> tadd pair1 (triangle_outgoing_dropout self r5) = Inr pair2
        \<and> triangle_multiplication_incoming self pair2 pair_mask = Inr r6
        \<and> tadd pair2 (triangle_incoming_dropout self r6) = Inr pair3
        \<and> triangle_attention_starting_node self pair3 pair_mask = Inr r7
        \<and> tadd pair3 (triangle_starting_dropout self r7) = Inr pair4
        \<and> triangle_attention_ending_node self pair4 pair_mask = Inr r8
        \<and> tadd pair4 (triangle_ending_dropout self r8) = Inr pair5
        \<and> pair_transition self pair5 pair_mask = Inr r9
        \<and> tadd pair5 (pair_transition_dropout self r9) = Inr pair6
        \<and> out = [(''msa'', msa3), (''pair'', pair6)])"
proof -
  from fwd obtain msa0 pair0 msa_mask pair_mask msa1 t1 msa3 t3 pair1 t4 pair2 t5 pair3 t6
      pair4 t7 pair5 t8 pair6 t9 where
    in0: "dict_get activations ''msa'' = Inr msa0" "dict_get activations ''pair'' = Inr pair0"
      "dict_get masks ''msa'' = Inr msa_mask" "dict_get masks ''pair'' = Inr pair_mask"
    and s1: "residual_update ''msa_row_attention_with_pair_bias''
              (msa_row_attention_with_pair_bias self msa0 msa_mask pair0)
              (msa_row_attn_dropout self) msa0 [] = Inr (msa1, t1)"
    and s23: "(if is_extra_msa self
            then ebind (residual_update ''msa_column_global_attention''
                          (msa_column_global_attention self msa1 msa_mask)
                          (msa_col_attn_dropout self) msa1 t1) (\<lambda>(msa_act, trail).
                 residual_update ''msa_transition'' (msa_transition self msa_act msa_mask)
                   (msa_transition_dropout self) msa_act trail)
            else ebind (residual_update ''msa_column_attention''
                          (msa_column_attention self msa1 msa_mask)
                          (msa_col_attn_dropout self) msa1 t1) (\<lambda>(msa_act, trail).
                 residual_update ''msa_transition'' (msa_transition self msa_act msa_mask)
                   (msa_transition_dropout self) msa_act trail)) = Inr (msa3, t3)"
    and s4: "residual_update ''outer_product_mean'' (outer_product_mean self msa3 msa_mask)
              (outer_product_mean_dropout self) pair0 t3 = Inr (pair1, t4)"
    and s5: "residual_update ''triangle_multiplication_outgoing''
              (triangle_multiplication_outgoing self pair1 pair_mask)
              (triangle_outgoing_dropout self) pair1 t4 = Inr (pair2, t5)"
    and s6: "residual_update ''triangle_multiplication_incoming''
              (triangle_multiplication_incoming self pair2 pair_mask)
              (triangle_incoming_dropout self) pair2 t5 = Inr (pair3, t6)"
    and s7: "residual_update ''triangle_attention_starting_node''
              (triangle_attention_starting_node self pair3 pair_mask)
              (triangle_starting_dropout self) pair3 t6 = Inr (pair4, t7)"
    and s8: "residual_update ''triangle_attention_ending_node''
              (triangle_attention_ending_node self pair4 pair_mask)
              (triangle_ending_dropout self) pair4 t7 = Inr (pair5, t8)"
    and s9: "residual_update ''pair_transition'' (pair_transition self pair5 pair_mask)
              (pair_transition_dropout self) pair5 t8 = Inr (pair6, t9)"
    and res: "out = [(''msa'', msa3), (''pair'', pair6)]" "trail = t9"
    unfolding EvoformerIteration_forward_def
    by (elim ebindE ebind_pairE) simp
  from s23 obtain msa2 t2 where
    s2: "residual_update
           (if is_extra_msa self then ''msa_column_global_attention'' else ''msa_column_attention'')
           (if is_extra_msa self then msa_column_global_attention self msa1 msa_mask
            else msa_column_attention self msa1 msa_mask)
           (msa_col_attn_dropout self) msa1 t1 = Inr (msa2, t2)"
    and s3: "residual_update ''msa_transition'' (msa_transition self msa2 msa_mask)
               (msa_transition_dropout self) msa2 t2 = Inr (msa3, t3)"
    by (cases "is_extra_msa self") (auto elim!: ebind_pairE)
  from s1 obtain r1 where r1: "msa_row_attention_with_pair_bias self msa0 msa_mask pair0 = Inr r1"
    "tadd msa0 (msa_row_attn_dropout self r1) = Inr msa1"
    "t1 = [''msa_row_attention_with_pair_bias'']"
    by (elim residual_updateE) simp
  from s2 obtain r2 where r2: "(if is_extra_msa self then msa_column_global_attention self msa1 msa_mask
            else msa_column_attention self msa1 msa_mask) = Inr r2"
    "tadd msa1 (msa_col_attn_dropout self r2) = Inr msa2"
    "t2 = t1 @ [if is_extra_msa self then ''msa_column_global_attention'' else ''msa_column_attention'']"
    by (elim residual_updateE)
  from s3 obtain r3 where r3: "msa_transition self msa2 msa_mask = Inr r3"
    "tadd msa2 (msa_transition_dropout self r3) = Inr msa3" "t3 = t2 @ [''msa_transition'']"
    by (elim residual_updateE)
  from s4 obtain r4 where r4: "outer_product_mean self msa3 msa_mask = Inr r4"
    "tadd pair0 (outer_product_mean_dropout self r4) = Inr pair1" "t4 = t3 @ [''outer_product_mean'']"
    by (elim residual_updateE)
  from s5 obtain r5 where r5: "triangle_multiplication_outgoing self pair1 pair_mask = Inr r5"
    "tadd pair1 (triangle_outgoing_dropout self r5) = Inr pair2"
    "t5 = t4 @ [''triangle_multiplication_outgoing'']"
    by (elim residual_updateE)
  from s6 obtain r6 where r6: "triangle_multiplication_incoming self pair2 pair_mask = Inr r6"
    "tadd pair2 (triangle_incoming_dropout self r6) = Inr pair3"
    "t6 = t5 @ [''triangle_multiplication_incoming'']"
    by (elim residual_updateE)
  from s7 obtain r7 where r7: "triangle_attention_starting_node self pair3 pair_mask = Inr r7"
    "tadd pair3 (triangle_starting_dropout self r7) = Inr pair4"
    "t7 = t6 @ [''triangle_attention_starting_node'']"
    by (elim residual_updateE)
  from s8 obtain r8 where r8: "triangle_attention_ending_node self pair4 pair_mask = Inr r8"
    "tadd pair4 (triangle_ending_dropout self r8) = Inr pair5"
    "t8 = t7 @ [''triangle_attention_ending_node'']"
    by (elim residual_updateE)
  from s9 obtain r9 where r9: "pair_transition self pair5 pair_mask = Inr r9"
    "tadd pair5 (pair_transition_dropout self r9) = Inr pair6" "t9 = t8 @ [''pair_transition'']"
    by (elim residual_updateE)
  have order: "trail = [''msa_row_attention_with_pair_bias'',
                (if is_extra_msa self then ''msa_column_global_attention'' else ''msa_column_attention''),
                ''msa_transition'', ''outer_product_mean'', ''triangle_multiplication_outgoing'',
                ''triangle_multiplication_incoming'', ''triangle_attention_starting_node'',
                ''triangle_attention_ending_node'', ''pair_transition'']"
    unfolding res(2) r9(3) r8(3) r7(3) r6(3) r5(3) r4(3) r3(3) r2(3) r1(3) by simp
  show ?thesis
    apply (rule conjI [OF order])
    apply (rule exI [of _ msa0], rule exI [of _ pair0], rule exI [of _ msa_mask],
        rule exI [of _ pair_mask])
    apply (rule exI [of _ r1], rule exI [of _ r2], rule exI [of _ r3], rule exI [of _ r4],
        rule exI [of _ r5], rule exI [of _ r6], rule exI [of _ r7], rule exI [of _ r8],
        rule exI [of _ r9])
    apply (rule exI [of _ msa1], rule exI [of _ msa2], rule exI [of _ msa3])
    apply (rule exI [of _ pair1], rule exI [of _ pair2], rule exI [of _ pair3],
        rule exI [of _ pair4], rule exI [of _ pair5], rule exI [of _ pair6])
    apply (intro conjI in0 r1(1,2) r2(1,2) r3(1,2) r4(1,2) r5(1,2) r6(1,2) r7(1,2) r8(1,2)
        r9(1,2) res(1))
    done
qed

text \<open>On the extra-MSA track the second sublayer is the global column attention.\<close>

theorem evoformer_block_order_and_residuals_witness:
  "snd (projr (EvoformerIteration_forward (tiny_block True) tiny_activations tiny_masks))
     = [''msa_row_attention_with_pair_bias'', ''msa_column_global_attention'',
        ''msa_transition'', ''outer_product_mean'', ''triangle_multiplication_outgoing'',
        ''triangle_multiplication_incoming'', ''triangle_attention_starting_node'',
        ''triangle_attention_ending_node'', ''pair_transition'']"
proof -
  let ?r = "EvoformerIteration_forward (tiny_block True) tiny_activations tiny_masks"
  have "\<not> isl ?r" by code_simp
  then have "?r = Inr (fst (projr ?r), snd (projr ?r))" by (cases ?r) auto
  from evoformer_block_order_and_residuals [OF this] show ?thesis
    by (simp add: tiny_block_def)
qed

section \<open>Properties of the global attention\<close>

text \<open>
  C10. The output of the global attention does not depend on its \<^verbatim>\<open>bias\<close> argument: for
  fixed \<^verbatim>\<open>q_data\<close>, \<^verbatim>\<open>m_data\<close> and \<^verbatim>\<open>q_mask\<close>, any two values of the argument give the same
  result (the same tensor, or the same exception). The bias added to the logits is
  \<^verbatim>\<open>1e9 * (q_mask - 1)\<close>, computed inside.
\<close>

theorem global_attention_ignores_bias:
  "GlobalAttention_forward mask_mean self q_data m_data q_mask bias
     = GlobalAttention_forward mask_mean self q_data m_data q_mask bias'"
  by (simp add: GlobalAttention_forward_def)

section \<open>Slices and their concatenation\<close>


lemma canonical_mk_tensor [simp]: "canonical (mk_tensor sh f sg)"
  by (simp add: canonical_def)


lemma shape_sliced [simp]: "shape (sliced t d s e) = (shape t)[d := min e (shape t ! d) - s]"
  by (simp add: sliced_def)

lemma stop_gradient_sliced [simp]: "stop_gradient (sliced t d s e) = stop_gradient t"
  by (simp add: sliced_def)

lemma canonical_sliced [simp]: "canonical (sliced t d s e)"
  by (simp add: sliced_def)









section \<open>Primitives commute with slicing\<close>












lemma shape_tunary [simp]: "shape (tunary f t) = shape t"
  by (simp add: tunary_def)

lemma canonical_tunary [simp]: "canonical (tunary f t)"
  by (simp add: tunary_def)

section \<open>Chunked evaluation\<close>








section \<open>Einsum commutes with slicing\<close>




lemma map_update_absent: "c \<notin> set spec \<Longrightarrow> map (f(c := v)) spec = map f spec"
  by simp














section \<open>Broadcasting commutes with slicing\<close>

lemma pad_shape_full [simp]: "length sh = r \<Longrightarrow> pad_shape r sh = sh"
  by (simp add: pad_shape_def)

lemma length_pad_shape [simp]: "length sh \<le> r \<Longrightarrow> length (pad_shape r sh) = r"
  by (simp add: pad_shape_def)











section \<open>Softmax and transposition commute with slicing\<close>


lemma canonical_softmax: "softmax x = Inr y \<Longrightarrow> canonical y"
  by (auto simp: softmax_def split: if_splits)






section \<open>Chunked triangle multiplication\<close>















section \<open>Chunked outer product mean\<close>










section \<open>Chunked attention\<close>


























end
